theory Spec2Isabelle
  imports Complex_Main
begin

section \<open>The loyalty subsystem of the car-wash backend\<close>

text \<open>
  The models \<^verbatim>\<open>VehicleStats\<close>, \<^verbatim>\<open>VehicleOffer\<close> and \<^verbatim>\<open>Offer\<close> are thin wrappers
  around SQL statements, and the controllers call them in sequence. The embedding keeps
  the database as an explicit state: every table is the list of its rows, every statement
  is a function on that list, and every model function takes the database and returns its
  result together with the database it leaves behind. An exception is the left summand of
  the result. \<^verbatim>\<open>CURRENT_TIMESTAMP\<close> and \<^verbatim>\<open>CURRENT_DATE\<close> are arguments (\<open>now\<close>,
  \<open>today\<close>). The columns \<^verbatim>\<open>created_at\<close> and \<^verbatim>\<open>updated_at\<close>, which the statements
  stamp and nothing reads, and the display columns that the \<^verbatim>\<open>SELECT\<close>s join in from
  other tables, are left out of the rows.
\<close>

subsection \<open>Errors\<close>

text \<open>One constructor for each \<^verbatim>\<open>throw new Error(...)\<close> of the three models, and one for
  the \<^verbatim>\<open>TypeError\<close> of calling \<^verbatim>\<open>execute\<close> on a \<^verbatim>\<open>db\<close> that is
  \<^verbatim>\<open>undefined\<close>.\<close>

datatype error =
    VehicleNotFound             \<comment> \<open>'Vehicle not found'\<close>
  | VehicleStatsNotFound        \<comment> \<open>'Vehicle statistics not found'\<close>
  | VehicleOfferNotActive       \<comment> \<open>'Vehicle offer not found or not active'\<close>
  | VehicleAndOfferRequired     \<comment> \<open>'Vehicle ID and Offer ID are required'\<close>
  | OfferFieldsRequired         \<comment> \<open>'Name, visit threshold, and discount type are required'\<close>
  | InvalidDiscountType         \<comment> \<open>'Invalid discount type. Must be: ...'\<close>
  | DiscountValueRequired       \<comment> \<open>'Discount value is required and must be positive ...'\<close>
  | FreeWashDiscountValue       \<comment> \<open>'Discount value should be null or 0 for free_wash offers'\<close>
  | DbUndefined                 \<comment> \<open>TypeError: Cannot read properties of undefined (reading 'execute')\<close>

subsection \<open>Rows and tables\<close>

record vehicle_stats_row =
  vs_vehicle_id :: nat
  total_visits :: int
  current_visit_count :: int
  total_offers_earned :: int
  total_offers_used :: int
  last_visit_date :: "nat option"

datatype offer_status = Active | Used | Expired

record vehicle_offer_row =
  vo_id :: nat
  vo_vehicle_id :: nat
  vo_offer_id :: nat
  earned_on_visit_id :: "nat option"
  issued_date :: nat
  used_date :: "nat option"
  used_on_visit_id :: "nat option"
  status :: offer_status
  vo_notes :: "string option"

record offer_row =
  o_id :: nat
  o_name :: string
  o_description :: "string option"
  o_visit_threshold :: int
  o_discount_type :: string
  o_discount_value :: "real option"
  o_is_active :: bool
  o_valid_from :: "nat option"
  o_valid_until :: "nat option"

text \<open>The database: the ids of the rows of \<^verbatim>\<open>vehicles\<close>, the three tables of the
  subsystem, and the auto-increment counters of the two tables with a surrogate id.\<close>

record db =
  vehicles :: "nat list"
  vehicle_stats :: "vehicle_stats_row list"
  vehicle_offers :: "vehicle_offer_row list"
  offers :: "offer_row list"
  vehicle_offers_next_id :: nat
  offers_next_id :: nat

text \<open>\<^verbatim>\<open>UPDATE t SET ... WHERE p\<close>: the number of rows matched (the driver's
  \<^verbatim>\<open>affectedRows\<close>) and the table afterwards.\<close>

definition sql_update :: "('r \<Rightarrow> bool) \<Rightarrow> ('r \<Rightarrow> 'r) \<Rightarrow> 'r list \<Rightarrow> nat \<times> 'r list" where
  "sql_update p f rows = (length (filter p rows), map (\<lambda>r. if p r then f r else r) rows)"

text \<open>\<^verbatim>\<open>rows[0] || null\<close> of a \<^verbatim>\<open>SELECT ... WHERE p\<close>.\<close>

definition sql_select_first :: "('r \<Rightarrow> bool) \<Rightarrow> 'r list \<Rightarrow> 'r option" where
  "sql_select_first p rows = find p rows"

subsection \<open>VehicleStats\<close>

text \<open>Modelled from the spec: the table declaration of \<^verbatim>\<open>vehicle_stats\<close> is not in the
  source, so the default of the two offer counters, which the \<^verbatim>\<open>INSERT\<close>s leave out,
  is taken from the spec's "zeroed row".\<close>

definition default_offer_counter :: int where
  "default_offer_counter = 0"

definition findByVehicleId :: "nat \<Rightarrow> db \<Rightarrow> vehicle_stats_row option" where
  "findByVehicleId vehicleId s =
     sql_select_first (\<lambda>r. vs_vehicle_id r = vehicleId) (vehicle_stats s)"

text \<open>The single statement of \<^verbatim>\<open>recordVisit\<close>:
  \<^verbatim>\<open>INSERT ... VALUES (?, 1, 1, CURRENT_TIMESTAMP) ON DUPLICATE KEY UPDATE
  total_visits = total_visits + 1, current_visit_count = current_visit_count + 1,
  last_visit_date = CURRENT_TIMESTAMP\<close>.\<close>

definition insert_or_count_visit :: "nat \<Rightarrow> nat \<Rightarrow> vehicle_stats_row list \<Rightarrow> vehicle_stats_row list" where
  "insert_or_count_visit now vehicleId rows =
     (if list_ex (\<lambda>r. vs_vehicle_id r = vehicleId) rows
      then map (\<lambda>r. if vs_vehicle_id r = vehicleId
                     then r\<lparr>total_visits := total_visits r + 1,
                            current_visit_count := current_visit_count r + 1,
                            last_visit_date := Some now\<rparr>
                     else r) rows
      else rows @ [\<lparr>vs_vehicle_id = vehicleId, total_visits = 1, current_visit_count = 1,
                    total_offers_earned = default_offer_counter,
                    total_offers_used = default_offer_counter,
                    last_visit_date = Some now\<rparr>])"

definition recordVisit :: "nat \<Rightarrow> nat \<Rightarrow> db \<Rightarrow> (error + vehicle_stats_row option) \<times> db" where
  "recordVisit now vehicleId s =
     (if length (filter (\<lambda>v. v = vehicleId) (vehicles s)) = 0
      then (Inl VehicleNotFound, s)
      else let s' = s\<lparr>vehicle_stats := insert_or_count_visit now vehicleId (vehicle_stats s)\<rparr>
           in (Inr (findByVehicleId vehicleId s'), s'))"

definition resetVisitCount :: "nat \<Rightarrow> db \<Rightarrow> (error + vehicle_stats_row option) \<times> db" where
  "resetVisitCount vehicleId s =
     (let (affectedRows, rows) =
            sql_update (\<lambda>r. vs_vehicle_id r = vehicleId)
                       (\<lambda>r. r\<lparr>current_visit_count := 0\<rparr>) (vehicle_stats s);
          s' = s\<lparr>vehicle_stats := rows\<rparr>
      in if affectedRows = 0 then (Inl VehicleStatsNotFound, s')
         else (Inr (findByVehicleId vehicleId s'), s'))"

text \<open>The \<^verbatim>\<open>UPDATE\<close>s of the two increment functions.\<close>

definition update_offers_earned :: "nat \<Rightarrow> db \<Rightarrow> nat \<times> db" where
  "update_offers_earned vehicleId s =
     (let (affectedRows, rows) =
            sql_update (\<lambda>r. vs_vehicle_id r = vehicleId)
                       (\<lambda>r. r\<lparr>total_offers_earned := total_offers_earned r + 1\<rparr>) (vehicle_stats s)
      in (affectedRows, s\<lparr>vehicle_stats := rows\<rparr>))"

definition update_offers_used :: "nat \<Rightarrow> db \<Rightarrow> nat \<times> db" where
  "update_offers_used vehicleId s =
     (let (affectedRows, rows) =
            sql_update (\<lambda>r. vs_vehicle_id r = vehicleId)
                       (\<lambda>r. r\<lparr>total_offers_used := total_offers_used r + 1\<rparr>) (vehicle_stats s)
      in (affectedRows, s\<lparr>vehicle_stats := rows\<rparr>))"

text \<open>\<^verbatim>\<open>incrementOffersEarned\<close> and \<^verbatim>\<open>incrementOffersUsed\<close> call themselves
  again after \<^verbatim>\<open>recordVisit\<close> has created the missing row. The recursion ends because
  that row then exists, so the second \<^verbatim>\<open>UPDATE\<close> matches it.\<close>

function incrementOffersEarned :: "nat \<Rightarrow> nat \<Rightarrow> db \<Rightarrow> (error + vehicle_stats_row option) \<times> db" where
  "incrementOffersEarned now vehicleId s =
     (case update_offers_earned vehicleId s of
        (affectedRows, s1) \<Rightarrow>
          if affectedRows = 0
          then (case recordVisit now vehicleId s1 of
                  (Inl e, s2) \<Rightarrow> (Inl e, s2)
                | (Inr created, s2) \<Rightarrow> incrementOffersEarned now vehicleId s2)
          else (Inr (findByVehicleId vehicleId s1), s1))"
  by pat_completeness auto
termination
proof (relation "measure (\<lambda>(now, vehicleId, s).
          if list_ex (\<lambda>r. vs_vehicle_id r = vehicleId) (vehicle_stats s) then 0 else 1)")
  show "wf (measure (\<lambda>(now, vehicleId, s).
          if list_ex (\<lambda>r. vs_vehicle_id r = vehicleId) (vehicle_stats s) then 0 else (1::nat)))"
    by simp
next
  fix now vehicleId s affectedRows s1 res s2 created
  assume "(affectedRows, s1) = update_offers_earned vehicleId s" "affectedRows = 0"
    "(res, s2) = recordVisit now vehicleId s1" "res = Inr created"
  then show "((now, vehicleId, s2), (now, vehicleId, s)) \<in> measure (\<lambda>(now, vehicleId, s).
          if list_ex (\<lambda>r. vs_vehicle_id r = vehicleId) (vehicle_stats s) then 0 else 1)"
    by (auto simp: update_offers_earned_def sql_update_def recordVisit_def Let_def
        insert_or_count_visit_def list_ex_iff filter_empty_conv split: if_splits)
qed

function incrementOffersUsed :: "nat \<Rightarrow> nat \<Rightarrow> db \<Rightarrow> (error + vehicle_stats_row option) \<times> db" where
  "incrementOffersUsed now vehicleId s =
     (case update_offers_used vehicleId s of
        (affectedRows, s1) \<Rightarrow>
          if affectedRows = 0
          then (case recordVisit now vehicleId s1 of
                  (Inl e, s2) \<Rightarrow> (Inl e, s2)
                | (Inr created, s2) \<Rightarrow> incrementOffersUsed now vehicleId s2)
          else (Inr (findByVehicleId vehicleId s1), s1))"
  by pat_completeness auto
termination
proof (relation "measure (\<lambda>(now, vehicleId, s).
          if list_ex (\<lambda>r. vs_vehicle_id r = vehicleId) (vehicle_stats s) then 0 else 1)")
  show "wf (measure (\<lambda>(now, vehicleId, s).
          if list_ex (\<lambda>r. vs_vehicle_id r = vehicleId) (vehicle_stats s) then 0 else (1::nat)))"
    by simp
next
  fix now vehicleId s affectedRows s1 res s2 created
  assume "(affectedRows, s1) = update_offers_used vehicleId s" "affectedRows = 0"
    "(res, s2) = recordVisit now vehicleId s1" "res = Inr created"
  then show "((now, vehicleId, s2), (now, vehicleId, s)) \<in> measure (\<lambda>(now, vehicleId, s).
          if list_ex (\<lambda>r. vs_vehicle_id r = vehicleId) (vehicle_stats s) then 0 else 1)"
    by (auto simp: update_offers_used_def sql_update_def recordVisit_def Let_def
        insert_or_count_visit_def list_ex_iff filter_empty_conv split: if_splits)
qed

declare incrementOffersEarned.simps [simp del]

declare incrementOffersUsed.simps [simp del]

text \<open>The patch of \<^verbatim>\<open>updateStats\<close>: a field is \<open>None\<close> when the request leaves it
  \<^verbatim>\<open>undefined\<close>, and holds the integer that \<^verbatim>\<open>parseInt\<close> returned otherwise.\<close>

record stats_update =
  upd_total_visits :: "int option"
  upd_current_visit_count :: "int option"
  upd_total_offers_earned :: "int option"
  upd_total_offers_used :: "int option"

definition set_if_defined :: "'a option \<Rightarrow> 'a \<Rightarrow> 'a" where
  "set_if_defined patch old = (case patch of None \<Rightarrow> old | Some v \<Rightarrow> v)"

definition updateStats :: "nat \<Rightarrow> stats_update \<Rightarrow> db \<Rightarrow> (error + vehicle_stats_row option) \<times> db" where
  "updateStats vehicleId updateData s =
     (let (affectedRows, rows) =
            sql_update (\<lambda>r. vs_vehicle_id r = vehicleId)
              (\<lambda>r. r\<lparr>total_visits := set_if_defined (upd_total_visits updateData) (total_visits r),
                     current_visit_count :=
                       set_if_defined (upd_current_visit_count updateData) (current_visit_count r),
                     total_offers_earned :=
                       set_if_defined (upd_total_offers_earned updateData) (total_offers_earned r),
                     total_offers_used :=
                       set_if_defined (upd_total_offers_used updateData) (total_offers_used r)\<rparr>)
              (vehicle_stats s);
          s' = s\<lparr>vehicle_stats := rows\<rparr>
      in if affectedRows = 0 then (Inl VehicleStatsNotFound, s')
         else (Inr (findByVehicleId vehicleId s'), s'))"

definition initializeStats :: "nat \<Rightarrow> db \<Rightarrow> (error + vehicle_stats_row option) \<times> db" where
  "initializeStats vehicleId s =
     (case findByVehicleId vehicleId s of
        Some existingStats \<Rightarrow> (Inr (Some existingStats), s)
      | None \<Rightarrow>
          let s' = s\<lparr>vehicle_stats := vehicle_stats s @
                     [\<lparr>vs_vehicle_id = vehicleId, total_visits = 0, current_visit_count = 0,
                       total_offers_earned = default_offer_counter,
                       total_offers_used = default_offer_counter,
                       last_visit_date = None\<rparr>]\<rparr>
          in (Inr (findByVehicleId vehicleId s'), s'))"

subsection \<open>Request values\<close>

text \<open>An id or a text of a request body is \<open>None\<close> when the body leaves it out. JavaScript
  takes a missing value, the number \<open>0\<close> and the empty string as false.\<close>

definition truthy_id :: "nat option \<Rightarrow> bool" where
  "truthy_id x = (case x of None \<Rightarrow> False | Some n \<Rightarrow> n \<noteq> 0)"

definition id_or_null :: "nat option \<Rightarrow> nat option" where
  \<comment> \<open>\<^verbatim>\<open>x || null\<close>\<close>
  "id_or_null x = (if truthy_id x then x else None)"

definition id_or :: "nat option \<Rightarrow> nat \<Rightarrow> nat" where
  \<comment> \<open>\<^verbatim>\<open>x || y\<close>\<close>
  "id_or x y = (case x of None \<Rightarrow> y | Some n \<Rightarrow> if n = 0 then y else n)"

definition text_or_null :: "string option \<Rightarrow> string option" where
  \<comment> \<open>\<^verbatim>\<open>x || null\<close>\<close>
  "text_or_null x = (case x of None \<Rightarrow> None | Some t \<Rightarrow> if t = [] then None else Some t)"

text \<open>What a controller answers: the HTTP status with the data, a 4xx with its message, or
  the 500 of the \<^verbatim>\<open>catch\<close> block with the error caught.\<close>

datatype 'a response =
    Http_ok nat 'a
  | Http_reject nat string
  | Http_error error

subsection \<open>VehicleOffer\<close>

record vehicle_offer_data =
  d_vehicle_id :: "nat option"
  d_offer_id :: "nat option"
  d_earned_on_visit_id :: "nat option"
  d_issued_date :: "nat option"
  d_used_date :: "nat option"
  d_used_on_visit_id :: "nat option"
  d_status :: "offer_status option"
  d_notes :: "string option"

definition VehicleOffer_findById :: "nat \<Rightarrow> db \<Rightarrow> vehicle_offer_row option" where
  "VehicleOffer_findById voId s = sql_select_first (\<lambda>r. vo_id r = voId) (vehicle_offers s)"

definition VehicleOffer_create ::
  "nat \<Rightarrow> vehicle_offer_data \<Rightarrow> db \<Rightarrow> (error + vehicle_offer_row option) \<times> db" where
  "VehicleOffer_create now offerData s =
     (case (d_vehicle_id offerData, d_offer_id offerData) of
        (Some vehicle_id, Some offer_id) \<Rightarrow>
          if vehicle_id = 0 \<or> offer_id = 0 then (Inl VehicleAndOfferRequired, s)
          else
            let insertId = vehicle_offers_next_id s;
                row = \<lparr>vo_id = insertId, vo_vehicle_id = vehicle_id, vo_offer_id = offer_id,
                       earned_on_visit_id = id_or_null (d_earned_on_visit_id offerData),
                       issued_date = id_or (d_issued_date offerData) now,
                       used_date = id_or_null (d_used_date offerData),
                       used_on_visit_id = id_or_null (d_used_on_visit_id offerData),
                       status = (case d_status offerData of None \<Rightarrow> Active | Some st \<Rightarrow> st),
                       vo_notes = text_or_null (d_notes offerData)\<rparr>;
                s' = s\<lparr>vehicle_offers := vehicle_offers s @ [row],
                       vehicle_offers_next_id := insertId + 1\<rparr>
            in (Inr (VehicleOffer_findById insertId s'), s')
      | _ \<Rightarrow> (Inl VehicleAndOfferRequired, s))"

definition hasActiveOffer :: "nat \<Rightarrow> nat \<Rightarrow> db \<Rightarrow> bool" where
  "hasActiveOffer vehicleId offerId s =
     (length (filter (\<lambda>r. vo_vehicle_id r = vehicleId \<and> vo_offer_id r = offerId \<and> status r = Active)
                     (vehicle_offers s)) > 0)"

definition markAsUsed ::
  "nat \<Rightarrow> nat \<Rightarrow> nat \<Rightarrow> string option \<Rightarrow> db \<Rightarrow> (error + vehicle_offer_row option) \<times> db" where
  "markAsUsed now voId usedOnVisitId notes s =
     (let (affectedRows, rows) =
            sql_update (\<lambda>r. vo_id r = voId \<and> status r = Active)
                       (\<lambda>r. r\<lparr>status := Used, used_date := Some now,
                              used_on_visit_id := Some usedOnVisitId, vo_notes := notes\<rparr>)
                       (vehicle_offers s);
          s' = s\<lparr>vehicle_offers := rows\<rparr>
      in if affectedRows = 0 then (Inl VehicleOfferNotActive, s')
         else (Inr (VehicleOffer_findById voId s'), s'))"

definition markAsExpired ::
  "nat \<Rightarrow> string option \<Rightarrow> db \<Rightarrow> (error + vehicle_offer_row option) \<times> db" where
  "markAsExpired voId notes s =
     (let (affectedRows, rows) =
            sql_update (\<lambda>r. vo_id r = voId \<and> status r = Active)
                       (\<lambda>r. r\<lparr>status := Expired, vo_notes := notes\<rparr>)
                       (vehicle_offers s);
          s' = s\<lparr>vehicle_offers := rows\<rparr>
      in if affectedRows = 0 then (Inl VehicleOfferNotActive, s')
         else (Inr (VehicleOffer_findById voId s'), s'))"

text \<open>The patch of \<^verbatim>\<open>update\<close>: the outer \<open>None\<close> is \<^verbatim>\<open>undefined\<close> (the column is
  left alone); for a nullable column the inner \<open>None\<close> is \<^verbatim>\<open>null\<close>.\<close>

record vehicle_offer_patch =
  p_vehicle_id :: "nat option"
  p_offer_id :: "nat option"
  p_earned_on_visit_id :: "nat option option"
  p_issued_date :: "nat option"
  p_used_date :: "nat option option"
  p_used_on_visit_id :: "nat option option"
  p_status :: "offer_status option"
  p_notes :: "string option option"

definition VehicleOffer_update ::
  "nat \<Rightarrow> vehicle_offer_patch \<Rightarrow> db \<Rightarrow> (error + vehicle_offer_row option) \<times> db" where
  "VehicleOffer_update voId updateData s =
     (let (affectedRows, rows) =
            sql_update (\<lambda>r. vo_id r = voId)
              (\<lambda>r. r\<lparr>vo_vehicle_id := set_if_defined (p_vehicle_id updateData) (vo_vehicle_id r),
                     vo_offer_id := set_if_defined (p_offer_id updateData) (vo_offer_id r),
                     earned_on_visit_id :=
                       set_if_defined (p_earned_on_visit_id updateData) (earned_on_visit_id r),
                     issued_date := set_if_defined (p_issued_date updateData) (issued_date r),
                     used_date := set_if_defined (p_used_date updateData) (used_date r),
                     used_on_visit_id :=
                       set_if_defined (p_used_on_visit_id updateData) (used_on_visit_id r),
                     status := set_if_defined (p_status updateData) (status r),
                     vo_notes := set_if_defined (p_notes updateData) (vo_notes r)\<rparr>)
              (vehicle_offers s);
          s' = s\<lparr>vehicle_offers := rows\<rparr>
      in if affectedRows = 0 then (Inr None, s')
         else (Inr (VehicleOffer_findById voId s'), s'))"

text \<open>\<^verbatim>\<open>expireOffers\<close> joins every vehicle offer with its offer
  (\<^verbatim>\<open>LEFT JOIN offers o ON vo.offer_id = o.id\<close>); \<open>linked_valid_until\<close> is
  \<^verbatim>\<open>o.valid_until\<close> of the joined row, \<^verbatim>\<open>NULL\<close> when there is no such offer. The
  text that \<^verbatim>\<open>CONCAT\<close> makes of a date is the database's, and is the argument
  \<open>date_text\<close>.\<close>

definition linked_valid_until :: "db \<Rightarrow> vehicle_offer_row \<Rightarrow> nat option" where
  "linked_valid_until s vo =
     (case sql_select_first (\<lambda>offer. o_id offer = vo_offer_id vo) (offers s) of
        None \<Rightarrow> None
      | Some offer \<Rightarrow> o_valid_until offer)"

definition validity_ended :: "nat \<Rightarrow> db \<Rightarrow> vehicle_offer_row \<Rightarrow> bool" where
  \<comment> \<open>\<^verbatim>\<open>vo.status = 'active' AND o.valid_until IS NOT NULL AND o.valid_until < CURRENT_DATE\<close>\<close>
  "validity_ended today s vo =
     (status vo = Active \<and>
      (case linked_valid_until s vo of None \<Rightarrow> False | Some d \<Rightarrow> d < today))"

definition auto_expired_notes :: "(nat \<Rightarrow> string) \<Rightarrow> nat option \<Rightarrow> string option" where
  \<comment> \<open>\<^verbatim>\<open>CONCAT('Auto-expired: Offer validity ended on ', o.valid_until)\<close>\<close>
  "auto_expired_notes date_text valid_until =
     (case valid_until of
        None \<Rightarrow> None
      | Some d \<Rightarrow> Some (''Auto-expired: Offer validity ended on '' @ date_text d))"

definition expireOffers :: "(nat \<Rightarrow> string) \<Rightarrow> nat \<Rightarrow> db \<Rightarrow> nat \<times> db" where
  "expireOffers date_text today s =
     (let (affectedRows, rows) =
            sql_update (validity_ended today s)
                       (\<lambda>vo. vo\<lparr>status := Expired,
                                vo_notes := auto_expired_notes date_text (linked_valid_until s vo)\<rparr>)
                       (vehicle_offers s)
      in (affectedRows, s\<lparr>vehicle_offers := rows\<rparr>))"

subsection \<open>VehicleOfferController\<close>

definition createVehicleOffer ::
  "nat \<Rightarrow> vehicle_offer_data \<Rightarrow> db \<Rightarrow> vehicle_offer_row option response \<times> db" where
  "createVehicleOffer now body s =
     (case (d_vehicle_id body, d_offer_id body) of
        (Some vehicle_id, Some offer_id) \<Rightarrow>
          if vehicle_id = 0 \<or> offer_id = 0
          then (Http_reject 400 ''Vehicle ID and Offer ID are required'', s)
          else
            let st = (case d_status body of None \<Rightarrow> Active | Some st \<Rightarrow> st) in
            if hasActiveOffer vehicle_id offer_id s \<and> st = Active
            then (Http_reject 400 ''Vehicle already has an active offer of this type'', s)
            else
              (case VehicleOffer_create now (body\<lparr>d_status := Some st\<rparr>) s of
                 (Inl e, s1) \<Rightarrow> (Http_error e, s1)
               | (Inr vehicleOffer, s1) \<Rightarrow>
                   (Http_ok 201 vehicleOffer,
                    if st = Active \<and> truthy_id (d_earned_on_visit_id body)
                    then snd (incrementOffersEarned now vehicle_id s1)
                    else s1))
      | _ \<Rightarrow> (Http_reject 400 ''Vehicle ID and Offer ID are required'', s))"

definition markOfferAsUsed ::
  "nat \<Rightarrow> nat \<Rightarrow> nat option \<Rightarrow> string option \<Rightarrow> db \<Rightarrow> vehicle_offer_row option response \<times> db" where
  "markOfferAsUsed now voId body_used_on_visit_id notes s =
     (case body_used_on_visit_id of
        None \<Rightarrow> (Http_reject 400 ''Used on visit ID is required'', s)
      | Some visit \<Rightarrow>
          if visit = 0 then (Http_reject 400 ''Used on visit ID is required'', s)
          else
            (case markAsUsed now voId visit notes s of
               (Inl e, s1) \<Rightarrow> (Http_error e, s1)
             | (Inr None, s1) \<Rightarrow> (Http_ok 200 None, s1)
             | (Inr (Some vehicleOffer), s1) \<Rightarrow>
                 (Http_ok 200 (Some vehicleOffer),
                  case incrementOffersUsed now (vo_vehicle_id vehicleOffer) s1 of
                    (Inl statsError, s2) \<Rightarrow> s2
                  | (Inr counted, s2) \<Rightarrow>
                      snd (resetVisitCount (vo_vehicle_id vehicleOffer) s2))))"

definition markOfferAsExpired ::
  "nat \<Rightarrow> string option \<Rightarrow> db \<Rightarrow> vehicle_offer_row option response \<times> db" where
  "markOfferAsExpired voId notes s =
     (case markAsExpired voId notes s of
        (Inl e, s1) \<Rightarrow> (Http_error e, s1)
      | (Inr vehicleOffer, s1) \<Rightarrow> (Http_ok 200 vehicleOffer, s1))"

definition no_fields_to_update :: "vehicle_offer_patch \<Rightarrow> bool" where
  \<comment> \<open>\<^verbatim>\<open>Object.keys(updateData).length === 0\<close>\<close>
  "no_fields_to_update body =
     (p_vehicle_id body = None \<and> p_offer_id body = None \<and> p_earned_on_visit_id body = None \<and>
      p_issued_date body = None \<and> p_used_date body = None \<and> p_used_on_visit_id body = None \<and>
      p_status body = None \<and> p_notes body = None)"

definition updateVehicleOffer ::
  "nat \<Rightarrow> vehicle_offer_patch \<Rightarrow> db \<Rightarrow> vehicle_offer_row option response \<times> db" where
  "updateVehicleOffer voId body s =
     (case VehicleOffer_findById voId s of
        None \<Rightarrow> (Http_reject 404 ''Vehicle offer not found'', s)
      | Some existingOffer \<Rightarrow>
          if (truthy_id (p_vehicle_id body) \<or> truthy_id (p_offer_id body))
             \<and> p_status body = Some Active
             \<and> hasActiveOffer (id_or (p_vehicle_id body) (vo_vehicle_id existingOffer))
                               (id_or (p_offer_id body) (vo_offer_id existingOffer)) s
             \<and> vo_id existingOffer \<noteq> voId
          then (Http_reject 400 ''Vehicle already has an active offer of this type'', s)
          else if no_fields_to_update body
          then (Http_reject 400 ''No fields to update'', s)
          else
            (case VehicleOffer_update voId body s of
               (Inl e, s1) \<Rightarrow> (Http_error e, s1)
             | (Inr updatedOffer, s1) \<Rightarrow> (Http_ok 200 updatedOffer, s1)))"

subsection \<open>Offer\<close>

text \<open>A number of a request body: left out, \<^verbatim>\<open>null\<close>, \<^verbatim>\<open>NaN\<close> (what
  \<^verbatim>\<open>parseFloat\<close> makes of a missing value) or a number. The three functions are
  JavaScript's \<^verbatim>\<open>!x\<close>, \<^verbatim>\<open>x <= 0\<close> and \<^verbatim>\<open>x > 0\<close>, where \<^verbatim>\<open>null\<close> compares as
  \<open>0\<close> and the other two non-numbers compare false.\<close>

datatype js_number = Undefined | Null | NaN | Num real

definition falsy_number :: "js_number \<Rightarrow> bool" where
  "falsy_number x = (case x of Num r \<Rightarrow> r = 0 | _ \<Rightarrow> True)"

definition number_le_zero :: "js_number \<Rightarrow> bool" where
  "number_le_zero x = (case x of Num r \<Rightarrow> r \<le> 0 | Null \<Rightarrow> True | _ \<Rightarrow> False)"

definition number_gt_zero :: "js_number \<Rightarrow> bool" where
  "number_gt_zero x = (case x of Num r \<Rightarrow> r > 0 | _ \<Rightarrow> False)"

definition sql_number :: "js_number \<Rightarrow> real option" where
  \<comment> \<open>the value bound to a \<^verbatim>\<open>?\<close>; after the checks of \<^verbatim>\<open>create\<close> it is a number\<close>
  "sql_number x = (case x of Num r \<Rightarrow> Some r | _ \<Rightarrow> None)"

definition parseFloat :: "js_number \<Rightarrow> js_number" where
  "parseFloat x = (case x of Num r \<Rightarrow> Num r | _ \<Rightarrow> NaN)"

record offer_data =
  od_name :: "string option"
  od_description :: "string option"
  od_visit_threshold :: "int option"
  od_discount_type :: "string option"
  od_discount_value :: js_number
  od_is_active :: "bool option"
  od_valid_from :: "nat option"
  od_valid_until :: "nat option"

definition validDiscountTypes :: "string list" where
  "validDiscountTypes = [''percentage'', ''fixed_amount'', ''free_wash'']"

text \<open>The module of the Offer model opens with
  \<^verbatim>\<open>const { db } = require('../config/env')\<close>, and \<^verbatim>\<open>config/env\<close> exports the
  settings of the environment and no \<^verbatim>\<open>db\<close> (the other models take \<^verbatim>\<open>db\<close> from
  \<^verbatim>\<open>../config/db\<close>). In this model \<^verbatim>\<open>db\<close> is therefore \<^verbatim>\<open>undefined\<close>, and
  every \<^verbatim>\<open>db.execute(...)\<close> throws a TypeError before its statement reaches the
  database. \<open>Offer_db_execute\<close> is that call: it is handed the statement and throws.\<close>

definition Offer_db_execute :: "(db \<Rightarrow> 'a \<times> db) \<Rightarrow> db \<Rightarrow> (error + 'a) \<times> db" where
  "Offer_db_execute statement s = (Inl DbUndefined, s)"

text \<open>The statements the model hands to \<^verbatim>\<open>db.execute\<close>: the \<^verbatim>\<open>INSERT\<close> of
  \<^verbatim>\<open>create\<close> with its \<^verbatim>\<open>insertId\<close>, and the \<^verbatim>\<open>SELECT\<close>s by id and by
  name.\<close>

definition insert_offer :: "(nat \<Rightarrow> offer_row) \<Rightarrow> db \<Rightarrow> nat \<times> db" where
  "insert_offer row s =
     (let insertId = offers_next_id s
      in (insertId, s\<lparr>offers := offers s @ [row insertId], offers_next_id := insertId + 1\<rparr>))"

definition select_offer_by_id :: "nat \<Rightarrow> db \<Rightarrow> offer_row option \<times> db" where
  "select_offer_by_id offerId s = (sql_select_first (\<lambda>r. o_id r = offerId) (offers s), s)"

definition select_offer_by_name :: "string \<Rightarrow> db \<Rightarrow> offer_row option \<times> db" where
  "select_offer_by_name name s = (sql_select_first (\<lambda>r. o_name r = name) (offers s), s)"

definition Offer_findByName :: "string \<Rightarrow> db \<Rightarrow> (error + offer_row option) \<times> db" where
  "Offer_findByName name s = Offer_db_execute (select_offer_by_name name) s"

text \<open>The \<^verbatim>\<open>values\<close> that \<^verbatim>\<open>create\<close> binds to its \<^verbatim>\<open>INSERT\<close>, as the row
  they would make under the id the database assigns.\<close>

definition Offer_values :: "string \<Rightarrow> int \<Rightarrow> string \<Rightarrow> offer_data \<Rightarrow> nat \<Rightarrow> offer_row" where
  "Offer_values name visit_threshold discount_type offerData insertId =
     \<lparr>o_id = insertId, o_name = name,
      o_description = text_or_null (od_description offerData),
      o_visit_threshold = visit_threshold,
      o_discount_type = discount_type,
      o_discount_value =
        (if discount_type = ''free_wash'' then Some 0
         else sql_number (od_discount_value offerData)),
      o_is_active = (case od_is_active offerData of None \<Rightarrow> True | Some b \<Rightarrow> b),
      o_valid_from = od_valid_from offerData,
      o_valid_until = od_valid_until offerData\<rparr>"

definition Offer_create :: "offer_data \<Rightarrow> db \<Rightarrow> (error + offer_row option) \<times> db" where
  "Offer_create offerData s =
     (case (od_name offerData, od_visit_threshold offerData, od_discount_type offerData) of
        (Some name, Some visit_threshold, Some discount_type) \<Rightarrow>
          let discount_value = od_discount_value offerData in
          if name = [] \<or> visit_threshold = 0 \<or> discount_type = []
          then (Inl OfferFieldsRequired, s)
          else if \<not> List.member validDiscountTypes discount_type
          then (Inl InvalidDiscountType, s)
          else if discount_type \<noteq> ''free_wash''
                  \<and> (falsy_number discount_value \<or> number_le_zero discount_value)
          then (Inl DiscountValueRequired, s)
          else if discount_type = ''free_wash''
                  \<and> \<not> falsy_number discount_value \<and> number_gt_zero discount_value
          then (Inl FreeWashDiscountValue, s)
          else
            (case Offer_db_execute
                    (insert_offer (Offer_values name visit_threshold discount_type offerData)) s of
               (Inl e, s1) \<Rightarrow> (Inl e, s1)
             | (Inr insertId, s1) \<Rightarrow> Offer_db_execute (select_offer_by_id insertId) s1)
      | _ \<Rightarrow> (Inl OfferFieldsRequired, s))"

subsection \<open>OfferController\<close>

definition createOffer :: "offer_data \<Rightarrow> db \<Rightarrow> offer_row option response \<times> db" where
  "createOffer body s =
     (case (od_name body, od_visit_threshold body, od_discount_type body) of
        (Some name, Some visit_threshold, Some discount_type) \<Rightarrow>
          if name = [] \<or> visit_threshold = 0 \<or> discount_type = []
          then (Http_reject 400 ''Name, visit threshold, and discount type are required'', s)
          else
            (case Offer_findByName name s of
               (Inl e, s1) \<Rightarrow> (Http_error e, s1)
             | (Inr existingOffer, s1) \<Rightarrow>
                 if existingOffer \<noteq> None
                 then (Http_reject 400 ''Offer name already exists'', s1)
                 else if visit_threshold \<le> 0
                 then (Http_reject 400 ''Visit threshold must be a positive number'', s1)
                 else
                   (case Offer_create
                           (body\<lparr>od_discount_value :=
                                    (if discount_type = ''free_wash'' then Num 0
                                     else parseFloat (od_discount_value body)),
                                  od_is_active :=
                                    Some (case od_is_active body of None \<Rightarrow> True
                                          | Some b \<Rightarrow> b)\<rparr>) s1 of
                      (Inl e, s2) \<Rightarrow> (Http_error e, s2)
                    | (Inr offer, s2) \<Rightarrow> (Http_ok 201 offer, s2)))
      | _ \<Rightarrow> (Http_reject 400 ''Name, visit threshold, and discount type are required'', s))"

subsection \<open>Sequences of statistics operations\<close>

text \<open>The operations that write \<^verbatim>\<open>vehicle_stats\<close>, each with the vehicle id it is called
  for, and the database a sequence of them leaves behind (every call with its own clock
  reading; a call that throws leaves what it had written).\<close>

datatype stats_op =
    RecordVisit nat
  | ResetVisitCount nat
  | IncrementOffersEarned nat
  | IncrementOffersUsed nat
  | InitializeStats nat
  | UpdateStats nat stats_update

fun run_stats_op :: "nat \<Rightarrow> stats_op \<Rightarrow> db \<Rightarrow> db" where
  "run_stats_op now (RecordVisit v) s = snd (recordVisit now v s)"
| "run_stats_op now (ResetVisitCount v) s = snd (resetVisitCount v s)"
| "run_stats_op now (IncrementOffersEarned v) s = snd (incrementOffersEarned now v s)"
| "run_stats_op now (IncrementOffersUsed v) s = snd (incrementOffersUsed now v s)"
| "run_stats_op now (InitializeStats v) s = snd (initializeStats v s)"
| "run_stats_op now (UpdateStats v updateData) s = snd (updateStats v updateData s)"

fun run_stats_ops :: "(nat \<times> stats_op) list \<Rightarrow> db \<Rightarrow> db" where
  "run_stats_ops [] s = s"
| "run_stats_ops ((now, op) # rest) s = run_stats_ops rest (run_stats_op now op s)"

definition visits_consistent :: "db \<Rightarrow> bool" where
  "visits_consistent s =
     list_all (\<lambda>r. 0 \<le> total_visits r \<and> current_visit_count r \<le> total_visits r) (vehicle_stats s)"

text \<open>A manual adjustment that cannot break the inequality whatever the row holds: it sets
  neither visit counter, or both with the streak within a total that is not negative.\<close>

fun consistent_adjustment :: "stats_op \<Rightarrow> bool" where
  "consistent_adjustment (UpdateStats v updateData) =
     (case (upd_total_visits updateData, upd_current_visit_count updateData) of
        (None, None) \<Rightarrow> True
      | (Some t, Some c) \<Rightarrow> 0 \<le> t \<and> c \<le> t
      | _ \<Rightarrow> False)"
| "consistent_adjustment _ = True"

subsection \<open>The life cycle of a vehicle offer\<close>


text \<open>At most one active row for every pair of a vehicle and an offer.\<close>

definition active_pairs_distinct :: "db \<Rightarrow> bool" where
  "active_pairs_distinct s =
     distinct (map (\<lambda>r. (vo_vehicle_id r, vo_offer_id r))
                   (filter (\<lambda>r. status r = Active) (vehicle_offers s)))"

text \<open>\<^verbatim>\<open>id\<close> is the key of \<^verbatim>\<open>vehicle_offers\<close>: no two rows share one, and the
  auto-increment counter is beyond all of them.\<close>

definition vehicle_offers_keyed :: "db \<Rightarrow> bool" where
  "vehicle_offers_keyed s =
     (distinct (map vo_id (vehicle_offers s))
      \<and> list_all (\<lambda>r. vo_id r < vehicle_offers_next_id s) (vehicle_offers s))"

subsection \<open>Example databases\<close>

text \<open>A database with one vehicle and no visit yet, and one where the vehicle has visited.\<close>

definition ex_db_new :: db where
  "ex_db_new = \<lparr>vehicles = [1], vehicle_stats = [], vehicle_offers = [], offers = [],
                 vehicle_offers_next_id = 1, offers_next_id = 1\<rparr>"

definition ex_db_visited :: db where
  "ex_db_visited = \<lparr>vehicles = [1],
     vehicle_stats = [\<lparr>vs_vehicle_id = 1, total_visits = 3, current_visit_count = 2,
                       total_offers_earned = 1, total_offers_used = 0, last_visit_date = Some 10\<rparr>],
     vehicle_offers = [], offers = [], vehicle_offers_next_id = 1, offers_next_id = 1\<rparr>"

text \<open>A database where vehicle 1 has five visits, holds an active offer (row 1, of offer 1,
  valid until day 15) and has redeemed another (row 2, of offer 2, open-ended).\<close>

definition ex_db_offers :: db where
  "ex_db_offers = \<lparr>vehicles = [1],
     vehicle_stats = [\<lparr>vs_vehicle_id = 1, total_visits = 5, current_visit_count = 5,
                       total_offers_earned = 2, total_offers_used = 1, last_visit_date = Some 10\<rparr>],
     vehicle_offers =
       [\<lparr>vo_id = 1, vo_vehicle_id = 1, vo_offer_id = 1, earned_on_visit_id = Some 7,
         issued_date = 10, used_date = None, used_on_visit_id = None, status = Active,
         vo_notes = None\<rparr>,
        \<lparr>vo_id = 2, vo_vehicle_id = 1, vo_offer_id = 2, earned_on_visit_id = Some 3,
         issued_date = 4, used_date = Some 8, used_on_visit_id = Some 6, status = Used,
         vo_notes = Some ''redeemed''\<rparr>],
     offers =
       [\<lparr>o_id = 1, o_name = ''Fifth wash free'', o_description = None, o_visit_threshold = 5,
         o_discount_type = ''free_wash'', o_discount_value = Some 0, o_is_active = True,
         o_valid_from = None, o_valid_until = Some 15\<rparr>,
        \<lparr>o_id = 2, o_name = ''Ten percent'', o_description = None, o_visit_threshold = 3,
         o_discount_type = ''percentage'', o_discount_value = Some 10, o_is_active = True,
         o_valid_from = None, o_valid_until = None\<rparr>],
     vehicle_offers_next_id = 3, offers_next_id = 3\<rparr>"

text \<open>A rendering of dates for the examples.\<close>

definition ex_date_text :: "nat \<Rightarrow> string" where
  "ex_date_text d = (if d = 15 then ''1970-01-16'' else ''another day'')"

text \<open>The request of the spec's scenario D, a percentage offer with discount value zero, and
  a free wash that sends no discount value.\<close>

definition ex_percentage_zero :: offer_data where
  "ex_percentage_zero = \<lparr>od_name = Some ''Loyal ten'', od_description = None,
     od_visit_threshold = Some 5, od_discount_type = Some ''percentage'',
     od_discount_value = Num 0, od_is_active = None, od_valid_from = None,
     od_valid_until = None\<rparr>"

definition ex_free_wash :: offer_data where
  "ex_free_wash = \<lparr>od_name = Some ''Sixth wash'', od_description = None,
     od_visit_threshold = Some 6, od_discount_type = Some ''free_wash'',
     od_discount_value = Undefined, od_is_active = None, od_valid_from = None,
     od_valid_until = Some 30\<rparr>"

section \<open>Properties\<close>

subsection \<open>Statements on tables\<close>

lemma find_update_same:
  assumes "\<And>r. key (f r) = key r"
  shows "find (\<lambda>r. key r = k) (map (\<lambda>r. if key r = k then f r else r) rows)
         = map_option f (find (\<lambda>r. key r = k) rows)"
  using assms by (induction rows) auto

lemma find_update_other:
  assumes "\<And>r. key (f r) = key r" and "k' \<noteq> k"
  shows "find (\<lambda>r. key r = k') (map (\<lambda>r. if key r = k then f r else r) rows)
         = find (\<lambda>r. key r = k') rows"
  using assms by (induction rows) auto

lemma find_None_iff_no_row: "find p rows = None \<longleftrightarrow> filter p rows = []"
  by (induction rows) auto

lemma find_append_new:
  "find p (rows @ [r]) = (case find p rows of Some x \<Rightarrow> Some x | None \<Rightarrow> if p r then Some r else None)"
  by (induction rows) auto

lemma update_untouched:
  "filter p rows = [] \<Longrightarrow> map (\<lambda>r. if p r then f r else r) rows = rows"
  by (induction rows) (auto split: if_splits)

lemma sql_update_no_match:
  "filter p rows = [] \<Longrightarrow> sql_update p f rows = (0, rows)"
  by (simp add: sql_update_def update_untouched)

lemma no_stats_row:
  "findByVehicleId vehicleId s = None \<longleftrightarrow>
   filter (\<lambda>r. vs_vehicle_id r = vehicleId) (vehicle_stats s) = []"
  by (simp add: findByVehicleId_def sql_select_first_def find_None_iff_no_row)

lemma recordVisit_not_found:
  "vehicleId \<notin> set (vehicles s) \<Longrightarrow> recordVisit now vehicleId s = (Inl VehicleNotFound, s)"
  by (simp add: recordVisit_def filter_empty_conv)

lemma recordVisit_first:
  assumes "findByVehicleId vehicleId s = None" and "vehicleId \<in> set (vehicles s)"
  shows "recordVisit now vehicleId s =
         (Inr (Some \<lparr>vs_vehicle_id = vehicleId, total_visits = 1, current_visit_count = 1,
                      total_offers_earned = 0, total_offers_used = 0, last_visit_date = Some now\<rparr>),
          s\<lparr>vehicle_stats := vehicle_stats s @
             [\<lparr>vs_vehicle_id = vehicleId, total_visits = 1, current_visit_count = 1,
               total_offers_earned = 0, total_offers_used = 0, last_visit_date = Some now\<rparr>]\<rparr>)"
proof -
  from assms(1) have no: "filter (\<lambda>r. vs_vehicle_id r = vehicleId) (vehicle_stats s) = []"
    by (simp add: no_stats_row)
  then have nex: "\<not> list_ex (\<lambda>r. vs_vehicle_id r = vehicleId) (vehicle_stats s)"
    by (simp add: list_ex_iff filter_empty_conv)
  from assms(2) have v: "filter (\<lambda>v. v = vehicleId) (vehicles s) \<noteq> []"
    by (simp add: filter_empty_conv)
  from no have f: "find (\<lambda>r. vs_vehicle_id r = vehicleId) (vehicle_stats s) = None"
    by (simp add: find_None_iff_no_row)
  show ?thesis using nex v f
    by (simp add: recordVisit_def Let_def insert_or_count_visit_def findByVehicleId_def
        sql_select_first_def find_append_new default_offer_counter_def)
qed

lemma update_offers_earned_no_row:
  "findByVehicleId vehicleId s = None \<Longrightarrow> update_offers_earned vehicleId s = (0, s)"
  by (simp add: update_offers_earned_def no_stats_row sql_update_no_match)

lemma update_offers_used_no_row:
  "findByVehicleId vehicleId s = None \<Longrightarrow> update_offers_used vehicleId s = (0, s)"
  by (simp add: update_offers_used_def no_stats_row sql_update_no_match)

lemma incrementOffersEarned_no_row:
  assumes "findByVehicleId vehicleId s = None"
  shows "incrementOffersEarned now vehicleId s =
         (case recordVisit now vehicleId s of
            (Inl e, s2) \<Rightarrow> (Inl e, s2)
          | (Inr created, s2) \<Rightarrow> incrementOffersEarned now vehicleId s2)"
  by (subst incrementOffersEarned.simps) (simp add: update_offers_earned_no_row [OF assms])

lemma incrementOffersUsed_no_row:
  assumes "findByVehicleId vehicleId s = None"
  shows "incrementOffersUsed now vehicleId s =
         (case recordVisit now vehicleId s of
            (Inl e, s2) \<Rightarrow> (Inl e, s2)
          | (Inr created, s2) \<Rightarrow> incrementOffersUsed now vehicleId s2)"
  by (subst incrementOffersUsed.simps) (simp add: update_offers_used_no_row [OF assms])

lemma incrementOffersEarned_row:
  assumes "findByVehicleId vehicleId s = Some old"
  shows "incrementOffersEarned now vehicleId s =
         (Inr (Some (old\<lparr>total_offers_earned := total_offers_earned old + 1\<rparr>)),
          s\<lparr>vehicle_stats := map (\<lambda>r. if vs_vehicle_id r = vehicleId
                                       then r\<lparr>total_offers_earned := total_offers_earned r + 1\<rparr>
                                       else r) (vehicle_stats s)\<rparr>)"
proof -
  from assms have "filter (\<lambda>r. vs_vehicle_id r = vehicleId) (vehicle_stats s) \<noteq> []"
    using no_stats_row [of vehicleId s] by simp
  then show ?thesis using assms
    by (subst incrementOffersEarned.simps)
       (simp add: update_offers_earned_def sql_update_def findByVehicleId_def sql_select_first_def
          find_update_same [where key = vs_vehicle_id])
qed

lemma incrementOffersUsed_row:
  assumes "findByVehicleId vehicleId s = Some old"
  shows "incrementOffersUsed now vehicleId s =
         (Inr (Some (old\<lparr>total_offers_used := total_offers_used old + 1\<rparr>)),
          s\<lparr>vehicle_stats := map (\<lambda>r. if vs_vehicle_id r = vehicleId
                                       then r\<lparr>total_offers_used := total_offers_used r + 1\<rparr>
                                       else r) (vehicle_stats s)\<rparr>)"
proof -
  from assms have "filter (\<lambda>r. vs_vehicle_id r = vehicleId) (vehicle_stats s) \<noteq> []"
    using no_stats_row [of vehicleId s] by simp
  then show ?thesis using assms
    by (subst incrementOffersUsed.simps)
       (simp add: update_offers_used_def sql_update_def findByVehicleId_def sql_select_first_def
          find_update_same [where key = vs_vehicle_id])
qed

lemma first_visit_row:
  assumes "findByVehicleId vehicleId s = None"
  shows "findByVehicleId vehicleId (s\<lparr>vehicle_stats := vehicle_stats s @ [row]\<rparr>) =
         (if vs_vehicle_id row = vehicleId then Some row else None)"
  using assms by (simp add: findByVehicleId_def sql_select_first_def find_append_new)

lemma no_row_untouched:
  assumes "findByVehicleId vehicleId s = None"
  shows "map (\<lambda>r. if vs_vehicle_id r = vehicleId then g r else r) (vehicle_stats s) = vehicle_stats s"
  using assms by (simp add: no_stats_row update_untouched)

lemma incrementOffersEarned_first:
  assumes "findByVehicleId vehicleId s = None" and "vehicleId \<in> set (vehicles s)"
  shows "incrementOffersEarned now vehicleId s =
           (Inr (Some \<lparr>vs_vehicle_id = vehicleId, total_visits = 1, current_visit_count = 1,
                        total_offers_earned = 1, total_offers_used = 0,
                        last_visit_date = Some now\<rparr>),
            s\<lparr>vehicle_stats := vehicle_stats s @
               [\<lparr>vs_vehicle_id = vehicleId, total_visits = 1, current_visit_count = 1,
                 total_offers_earned = 1, total_offers_used = 0, last_visit_date = Some now\<rparr>]\<rparr>)"
proof -
  let ?row = "\<lparr>vs_vehicle_id = vehicleId, total_visits = 1, current_visit_count = 1,
               total_offers_earned = 0, total_offers_used = 0, last_visit_date = Some now\<rparr>"
  let ?s2 = "s\<lparr>vehicle_stats := vehicle_stats s @ [?row]\<rparr>"
  have created: "findByVehicleId vehicleId ?s2 = Some ?row"
    by (simp add: first_visit_row [OF assms(1)])
  have "incrementOffersEarned now vehicleId s = incrementOffersEarned now vehicleId ?s2"
    by (simp add: incrementOffersEarned_no_row [OF assms(1)] recordVisit_first [OF assms])
  then show ?thesis
    by (simp add: incrementOffersEarned_row [OF created] no_row_untouched [OF assms(1)])
qed

lemma incrementOffersUsed_first:
  assumes "findByVehicleId vehicleId s = None" and "vehicleId \<in> set (vehicles s)"
  shows "incrementOffersUsed now vehicleId s =
           (Inr (Some \<lparr>vs_vehicle_id = vehicleId, total_visits = 1, current_visit_count = 1,
                        total_offers_earned = 0, total_offers_used = 1,
                        last_visit_date = Some now\<rparr>),
            s\<lparr>vehicle_stats := vehicle_stats s @
               [\<lparr>vs_vehicle_id = vehicleId, total_visits = 1, current_visit_count = 1,
                 total_offers_earned = 0, total_offers_used = 1, last_visit_date = Some now\<rparr>]\<rparr>)"
proof -
  let ?row = "\<lparr>vs_vehicle_id = vehicleId, total_visits = 1, current_visit_count = 1,
               total_offers_earned = 0, total_offers_used = 0, last_visit_date = Some now\<rparr>"
  let ?s2 = "s\<lparr>vehicle_stats := vehicle_stats s @ [?row]\<rparr>"
  have created: "findByVehicleId vehicleId ?s2 = Some ?row"
    by (simp add: first_visit_row [OF assms(1)])
  have "incrementOffersUsed now vehicleId s = incrementOffersUsed now vehicleId ?s2"
    by (simp add: incrementOffersUsed_no_row [OF assms(1)] recordVisit_first [OF assms])
  then show ?thesis
    by (simp add: incrementOffersUsed_row [OF created] no_row_untouched [OF assms(1)])
qed

subsection \<open>Visits and offer counters\<close>

text \<open>C10: \<^verbatim>\<open>recordVisit\<close> looks the vehicle up in \<^verbatim>\<open>vehicles\<close> first. For an id with
  no row there it throws 'Vehicle not found' and leaves the database as it was. The two
  increment functions create a missing statistics row through \<^verbatim>\<open>recordVisit\<close>, so for
  an unknown vehicle without a statistics row they fail with the same error and create
  nothing.\<close>

theorem recordVisit_unknown_vehicle:
  assumes "vehicleId \<notin> set (vehicles s)"
  shows "recordVisit now vehicleId s = (Inl VehicleNotFound, s)
       \<and> (findByVehicleId vehicleId s = None \<longrightarrow>
            incrementOffersEarned now vehicleId s = (Inl VehicleNotFound, s)
          \<and> incrementOffersUsed now vehicleId s = (Inl VehicleNotFound, s))"
  using assms
  by (simp add: recordVisit_not_found incrementOffersEarned_no_row incrementOffersUsed_no_row)

theorem recordVisit_unknown_vehicle_witness:
  "2 \<notin> set (vehicles ex_db_new) \<and> findByVehicleId 2 ex_db_new = None
   \<and> recordVisit 20 2 ex_db_new = (Inl VehicleNotFound, ex_db_new)
   \<and> incrementOffersEarned 20 2 ex_db_new = (Inl VehicleNotFound, ex_db_new)
   \<and> incrementOffersUsed 20 2 ex_db_new = (Inl VehicleNotFound, ex_db_new)"
  using recordVisit_unknown_vehicle [of 2 ex_db_new 20]
  by (simp add: ex_db_new_def findByVehicleId_def sql_select_first_def)

text \<open>C5: for a vehicle of the table \<^verbatim>\<open>vehicles\<close>, \<^verbatim>\<open>recordVisit\<close> succeeds with one
  statement. Where the vehicle has a statistics row, \<open>total_visits\<close> and
  \<open>current_visit_count\<close> each grow by exactly one and the offer counters stay; where it has
  none, the row is created with both visit counters equal to one, without any call to
  initialise it. In both cases \<open>last_visit_date\<close> is the current time, and the rows of the
  other vehicles and the other tables are as before.\<close>

theorem recordVisit_counts:
  assumes "vehicleId \<in> set (vehicles s)"
  shows "\<exists>row s'. recordVisit now vehicleId s = (Inr (Some row), s')
           \<and> findByVehicleId vehicleId s' = Some row
           \<and> last_visit_date row = Some now
           \<and> (case findByVehicleId vehicleId s of
                 None \<Rightarrow> total_visits row = 1 \<and> current_visit_count row = 1
               | Some old \<Rightarrow> total_visits row = total_visits old + 1
                            \<and> current_visit_count row = current_visit_count old + 1
                            \<and> total_offers_earned row = total_offers_earned old
                            \<and> total_offers_used row = total_offers_used old)
           \<and> (\<forall>other. other \<noteq> vehicleId \<longrightarrow> findByVehicleId other s' = findByVehicleId other s)
           \<and> vehicle_offers s' = vehicle_offers s \<and> offers s' = offers s \<and> vehicles s' = vehicles s"
proof (cases "findByVehicleId vehicleId s")
  case None
  then have no: "filter (\<lambda>r. vs_vehicle_id r = vehicleId) (vehicle_stats s) = []"
    by (simp add: findByVehicleId_def sql_select_first_def find_None_iff_no_row)
  then have nex: "\<not> list_ex (\<lambda>r. vs_vehicle_id r = vehicleId) (vehicle_stats s)"
    by (simp add: list_ex_iff filter_empty_conv)
  from assms have v: "filter (\<lambda>v. v = vehicleId) (vehicles s) \<noteq> []"
    by (simp add: filter_empty_conv)
  show ?thesis using None nex v
    by (auto simp: recordVisit_def Let_def insert_or_count_visit_def findByVehicleId_def
        sql_select_first_def find_append_new split: option.splits)
next
  case (Some old)
  then have ex: "list_ex (\<lambda>r. vs_vehicle_id r = vehicleId) (vehicle_stats s)"
    by (auto simp: findByVehicleId_def sql_select_first_def list_ex_iff find_Some_iff)
  from assms have v: "filter (\<lambda>v. v = vehicleId) (vehicles s) \<noteq> []"
    by (simp add: filter_empty_conv)
  show ?thesis using Some ex v
    by (simp add: recordVisit_def Let_def insert_or_count_visit_def findByVehicleId_def
        sql_select_first_def find_update_same [where key = vs_vehicle_id]
        find_update_other [where key = vs_vehicle_id])
qed

theorem recordVisit_counts_witness:
  "1 \<in> set (vehicles ex_db_new)
   \<and> recordVisit 20 1 ex_db_new =
       (Inr (Some \<lparr>vs_vehicle_id = 1, total_visits = 1, current_visit_count = 1,
                    total_offers_earned = 0, total_offers_used = 0, last_visit_date = Some 20\<rparr>),
        ex_db_new\<lparr>vehicle_stats :=
          [\<lparr>vs_vehicle_id = 1, total_visits = 1, current_visit_count = 1,
            total_offers_earned = 0, total_offers_used = 0, last_visit_date = Some 20\<rparr>]\<rparr>)
   \<and> 1 \<in> set (vehicles ex_db_visited)
   \<and> recordVisit 20 1 ex_db_visited =
       (Inr (Some \<lparr>vs_vehicle_id = 1, total_visits = 4, current_visit_count = 3,
                    total_offers_earned = 1, total_offers_used = 0, last_visit_date = Some 20\<rparr>),
        ex_db_visited\<lparr>vehicle_stats :=
          [\<lparr>vs_vehicle_id = 1, total_visits = 4, current_visit_count = 3,
            total_offers_earned = 1, total_offers_used = 0, last_visit_date = Some 20\<rparr>]\<rparr>)"
  using recordVisit_counts [of 1 ex_db_new 20] recordVisit_counts [of 1 ex_db_visited 20]
  by (simp add: ex_db_new_def ex_db_visited_def recordVisit_def insert_or_count_visit_def
      findByVehicleId_def sql_select_first_def default_offer_counter_def)

text \<open>C8, as the code has it: for a vehicle of the table \<^verbatim>\<open>vehicles\<close> without a
  statistics row, \<^verbatim>\<open>incrementOffersEarned\<close> and \<^verbatim>\<open>incrementOffersUsed\<close> create the
  row through \<^verbatim>\<open>recordVisit\<close>, which counts a visit, and then increment their own
  counter. The row they leave has \<open>total_visits = 1\<close>, \<open>current_visit_count = 1\<close>, the
  incremented counter equal to one and the other offer counter zero.\<close>

theorem increment_offers_counts_a_visit:
  assumes "findByVehicleId vehicleId s = None" and "vehicleId \<in> set (vehicles s)"
  shows "incrementOffersEarned now vehicleId s =
           (Inr (Some \<lparr>vs_vehicle_id = vehicleId, total_visits = 1, current_visit_count = 1,
                        total_offers_earned = 1, total_offers_used = 0,
                        last_visit_date = Some now\<rparr>),
            s\<lparr>vehicle_stats := vehicle_stats s @
               [\<lparr>vs_vehicle_id = vehicleId, total_visits = 1, current_visit_count = 1,
                 total_offers_earned = 1, total_offers_used = 0, last_visit_date = Some now\<rparr>]\<rparr>)
       \<and> incrementOffersUsed now vehicleId s =
           (Inr (Some \<lparr>vs_vehicle_id = vehicleId, total_visits = 1, current_visit_count = 1,
                        total_offers_earned = 0, total_offers_used = 1,
                        last_visit_date = Some now\<rparr>),
            s\<lparr>vehicle_stats := vehicle_stats s @
               [\<lparr>vs_vehicle_id = vehicleId, total_visits = 1, current_visit_count = 1,
                 total_offers_earned = 0, total_offers_used = 1, last_visit_date = Some now\<rparr>]\<rparr>)"
  using incrementOffersEarned_first [OF assms] incrementOffersUsed_first [OF assms] by simp

theorem increment_offers_counts_a_visit_witness:
  "findByVehicleId 1 ex_db_new = None \<and> 1 \<in> set (vehicles ex_db_new)
   \<and> findByVehicleId 1 (snd (incrementOffersEarned 20 1 ex_db_new)) =
       Some \<lparr>vs_vehicle_id = 1, total_visits = 1, current_visit_count = 1,
              total_offers_earned = 1, total_offers_used = 0, last_visit_date = Some 20\<rparr>
   \<and> findByVehicleId 1 (snd (incrementOffersUsed 20 1 ex_db_new)) =
       Some \<lparr>vs_vehicle_id = 1, total_visits = 1, current_visit_count = 1,
              total_offers_earned = 0, total_offers_used = 1, last_visit_date = Some 20\<rparr>"
  using increment_offers_counts_a_visit [of 1 ex_db_new 20]
  by (simp add: ex_db_new_def findByVehicleId_def sql_select_first_def)

text \<open>The claim of C8 itself, a zeroed row with \<open>total_visits = 0\<close> and
  \<open>current_visit_count = 0\<close>, fails on the first offer of a vehicle that has no row.\<close>

theorem increment_offers_zeroed_row_counterexample:
  "findByVehicleId 1 ex_db_new = None
   \<and> map_option total_visits (findByVehicleId 1 (snd (incrementOffersEarned 20 1 ex_db_new))) = Some 1
   \<and> map_option current_visit_count
         (findByVehicleId 1 (snd (incrementOffersEarned 20 1 ex_db_new))) = Some 1
   \<and> map_option total_visits (findByVehicleId 1 (snd (incrementOffersUsed 20 1 ex_db_new))) = Some 1
   \<and> map_option current_visit_count
         (findByVehicleId 1 (snd (incrementOffersUsed 20 1 ex_db_new))) = Some 1"
  by (simp add: ex_db_new_def incrementOffersEarned.simps incrementOffersUsed.simps
      update_offers_earned_def update_offers_used_def sql_update_def recordVisit_def
      insert_or_count_visit_def findByVehicleId_def sql_select_first_def default_offer_counter_def)

subsection \<open>The streak never exceeds the lifetime count\<close>

lemma list_all_update:
  "list_all P rows \<Longrightarrow> (\<And>r. P r \<Longrightarrow> p r \<Longrightarrow> P (f r)) \<Longrightarrow>
   list_all P (map (\<lambda>r. if p r then f r else r) rows)"
  by (induction rows) auto

lemma recordVisit_consistent:
  "visits_consistent s \<Longrightarrow> visits_consistent (snd (recordVisit now v s))"
  by (auto simp: visits_consistent_def recordVisit_def Let_def insert_or_count_visit_def
      intro!: list_all_update)

lemma resetVisitCount_consistent:
  "visits_consistent s \<Longrightarrow> visits_consistent (snd (resetVisitCount v s))"
  by (auto simp: visits_consistent_def resetVisitCount_def Let_def sql_update_def
      intro!: list_all_update)

lemma initializeStats_consistent:
  "visits_consistent s \<Longrightarrow> visits_consistent (snd (initializeStats v s))"
  by (auto simp: visits_consistent_def initializeStats_def Let_def split: option.splits)

lemma update_offers_earned_consistent:
  "visits_consistent s \<Longrightarrow> visits_consistent (snd (update_offers_earned v s))"
  by (auto simp: visits_consistent_def update_offers_earned_def sql_update_def
      intro!: list_all_update)

lemma update_offers_used_consistent:
  "visits_consistent s \<Longrightarrow> visits_consistent (snd (update_offers_used v s))"
  by (auto simp: visits_consistent_def update_offers_used_def sql_update_def
      intro!: list_all_update)

lemma incrementOffersEarned_consistent:
  "visits_consistent s \<Longrightarrow> visits_consistent (snd (incrementOffersEarned now v s))"
proof (induction now v s rule: incrementOffersEarned.induct)
  case (1 now v s)
  obtain n s1 where u: "update_offers_earned v s = (n, s1)" by (cases "update_offers_earned v s")
  with "1.prems" have c1: "visits_consistent s1"
    using update_offers_earned_consistent [of s v] by simp
  show ?case
  proof (cases "n = 0")
    case False
    with u c1 show ?thesis by (subst incrementOffersEarned.simps) simp
  next
    case True
    obtain res s2 where r: "recordVisit now v s1 = (res, s2)" by (cases "recordVisit now v s1")
    with c1 have c2: "visits_consistent s2" using recordVisit_consistent [of s1 now v] by simp
    show ?thesis
    proof (cases res)
      case (Inl e)
      with u True r c2 show ?thesis by (subst incrementOffersEarned.simps) simp
    next
      case (Inr created)
      with "1.IH" [OF u [symmetric] True r [symmetric] Inr c2] u True r
      show ?thesis by (subst incrementOffersEarned.simps) simp
    qed
  qed
qed

lemma incrementOffersUsed_consistent:
  "visits_consistent s \<Longrightarrow> visits_consistent (snd (incrementOffersUsed now v s))"
proof (induction now v s rule: incrementOffersUsed.induct)
  case (1 now v s)
  obtain n s1 where u: "update_offers_used v s = (n, s1)" by (cases "update_offers_used v s")
  with "1.prems" have c1: "visits_consistent s1"
    using update_offers_used_consistent [of s v] by simp
  show ?case
  proof (cases "n = 0")
    case False
    with u c1 show ?thesis by (subst incrementOffersUsed.simps) simp
  next
    case True
    obtain res s2 where r: "recordVisit now v s1 = (res, s2)" by (cases "recordVisit now v s1")
    with c1 have c2: "visits_consistent s2" using recordVisit_consistent [of s1 now v] by simp
    show ?thesis
    proof (cases res)
      case (Inl e)
      with u True r c2 show ?thesis by (subst incrementOffersUsed.simps) simp
    next
      case (Inr created)
      with "1.IH" [OF u [symmetric] True r [symmetric] Inr c2] u True r
      show ?thesis by (subst incrementOffersUsed.simps) simp
    qed
  qed
qed

lemma updateStats_consistent:
  "visits_consistent s \<Longrightarrow> consistent_adjustment (UpdateStats v updateData) \<Longrightarrow>
   visits_consistent (snd (updateStats v updateData s))"
  by (auto simp: visits_consistent_def updateStats_def Let_def sql_update_def set_if_defined_def
      split: option.splits intro!: list_all_update)

lemma run_stats_op_consistent:
  "visits_consistent s \<Longrightarrow> consistent_adjustment op \<Longrightarrow> visits_consistent (run_stats_op now op s)"
  by (cases op)
     (simp_all add: recordVisit_consistent resetVisitCount_consistent
        incrementOffersEarned_consistent incrementOffersUsed_consistent
        initializeStats_consistent updateStats_consistent)

text \<open>C7, as the code has it: from a table in which every row has
  \<open>0 \<le> total_visits\<close> and \<open>current_visit_count \<le> total_visits\<close> (the empty table is
  one), every sequence of \<^verbatim>\<open>recordVisit\<close>, \<^verbatim>\<open>resetVisitCount\<close>,
  \<^verbatim>\<open>incrementOffersEarned\<close>, \<^verbatim>\<open>incrementOffersUsed\<close> and \<^verbatim>\<open>initializeStats\<close> calls,
  and of \<^verbatim>\<open>updateStats\<close> calls that set neither visit counter or set both with the
  streak within a total that is not negative, leaves \<open>current_visit_count \<le> total_visits\<close>
  in every row. \<^verbatim>\<open>updateStats\<close> itself checks nothing.\<close>

theorem streak_within_total_visits:
  assumes "visits_consistent s" and "list_all (\<lambda>(now, op). consistent_adjustment op) ops"
  shows "list_all (\<lambda>r. current_visit_count r \<le> total_visits r) (vehicle_stats (run_stats_ops ops s))"
proof -
  from assms have "visits_consistent (run_stats_ops ops s)"
  proof (induction ops arbitrary: s)
    case Nil
    then show ?case by simp
  next
    case (Cons a ops)
    then show ?case by (cases a) (simp add: run_stats_op_consistent)
  qed
  then show ?thesis
    by (simp add: visits_consistent_def list_all_iff)
qed

theorem streak_within_total_visits_witness:
  "visits_consistent ex_db_new
   \<and> list_all (\<lambda>(now, op). consistent_adjustment op)
        [(20, RecordVisit 1), (21, IncrementOffersEarned 1), (22, ResetVisitCount 1),
         (23, RecordVisit 1),
         (24, UpdateStats 1 \<lparr>upd_total_visits = Some 9, upd_current_visit_count = Some 4,
                               upd_total_offers_earned = None, upd_total_offers_used = None\<rparr>)]
   \<and> list_all (\<lambda>r. current_visit_count r \<le> total_visits r)
        (vehicle_stats (run_stats_ops
           [(20, RecordVisit 1), (21, IncrementOffersEarned 1), (22, ResetVisitCount 1),
            (23, RecordVisit 1),
            (24, UpdateStats 1 \<lparr>upd_total_visits = Some 9, upd_current_visit_count = Some 4,
                                  upd_total_offers_earned = None, upd_total_offers_used = None\<rparr>)]
           ex_db_new))"
  using streak_within_total_visits [of ex_db_new
      "[(20, RecordVisit 1), (21, IncrementOffersEarned 1), (22, ResetVisitCount 1),
        (23, RecordVisit 1),
        (24, UpdateStats 1 \<lparr>upd_total_visits = Some 9, upd_current_visit_count = Some 4,
                              upd_total_offers_earned = None, upd_total_offers_used = None\<rparr>)]"]
  by (simp add: visits_consistent_def ex_db_new_def)

text \<open>The claim of C7 itself fails for the manual adjustment: \<^verbatim>\<open>updateStats\<close> writes a
  streak of five into a row whose total is three.\<close>

theorem updateStats_breaks_streak_counterexample:
  "list_all (\<lambda>r. current_visit_count r \<le> total_visits r) (vehicle_stats ex_db_visited)
   \<and> \<not> list_all (\<lambda>r. current_visit_count r \<le> total_visits r)
         (vehicle_stats (snd (updateStats 1
            \<lparr>upd_total_visits = None, upd_current_visit_count = Some 5,
             upd_total_offers_earned = None, upd_total_offers_used = None\<rparr> ex_db_visited)))"
  by (simp add: ex_db_visited_def updateStats_def sql_update_def set_if_defined_def Let_def)

subsection \<open>Redeeming and expiring one offer\<close>

lemma find_update_first:
  assumes "find (\<lambda>r. key r = k) rows = Some x" and "q x" and "\<And>r. key (f r) = key r"
  shows "find (\<lambda>r. key r = k) (map (\<lambda>r. if key r = k \<and> q r then f r else r) rows) = Some (f x)"
  using assms by (induction rows) (auto split: if_splits)

lemma find_in_filter:
  "find p rows = Some x \<Longrightarrow> q x \<Longrightarrow> filter (\<lambda>r. p r \<and> q r) rows \<noteq> []"
  by (induction rows) (auto split: if_splits)

lemma key_row_only:
  assumes "distinct (map key rows)" and "find (\<lambda>r. key r = k) rows = Some x" and "\<not> q x"
  shows "filter (\<lambda>r. key r = k \<and> q r) rows = []"
proof -
  from assms(2) have x: "x \<in> set rows" "key x = k"
    by (auto simp: find_Some_iff)
  have "r = x" if "r \<in> set rows" "key r = k" for r
    using assms(1) x that by (auto simp: distinct_map dest: inj_onD)
  with assms(3) show ?thesis
    by (auto simp: filter_empty_conv)
qed

lemma markAsUsed_not_active:
  assumes "distinct (map vo_id (vehicle_offers s))"
    and "VehicleOffer_findById voId s = Some offer" and "status offer \<noteq> Active"
  shows "markAsUsed now voId usedOnVisitId notes s = (Inl VehicleOfferNotActive, s)"
proof -
  have "filter (\<lambda>r. vo_id r = voId \<and> status r = Active) (vehicle_offers s) = []"
    using assms by (intro key_row_only) (simp_all add: VehicleOffer_findById_def sql_select_first_def)
  then show ?thesis
    by (simp add: markAsUsed_def sql_update_no_match)
qed

lemma markAsExpired_not_active:
  assumes "distinct (map vo_id (vehicle_offers s))"
    and "VehicleOffer_findById voId s = Some offer" and "status offer \<noteq> Active"
  shows "markAsExpired voId notes s = (Inl VehicleOfferNotActive, s)"
proof -
  have "filter (\<lambda>r. vo_id r = voId \<and> status r = Active) (vehicle_offers s) = []"
    using assms by (intro key_row_only) (simp_all add: VehicleOffer_findById_def sql_select_first_def)
  then show ?thesis
    by (simp add: markAsExpired_def sql_update_no_match)
qed

text \<open>C4: where \<^verbatim>\<open>id\<close> is the key of \<^verbatim>\<open>vehicle_offers\<close> and the vehicle offer of that
  id is already used or expired, the conditional \<^verbatim>\<open>UPDATE ... WHERE id = ? AND status =
  'active'\<close> of \<^verbatim>\<open>markAsUsed\<close> and of \<^verbatim>\<open>markAsExpired\<close> matches no row, both throw
  'Vehicle offer not found or not active', and the database afterwards is the database
  before. The controllers pass the error on and write nothing either.\<close>

theorem mark_terminal_offer_fails:
  assumes "distinct (map vo_id (vehicle_offers s))"
    and "VehicleOffer_findById voId s = Some offer" and "status offer \<noteq> Active"
  shows "markAsUsed now voId usedOnVisitId notes s = (Inl VehicleOfferNotActive, s)
       \<and> markAsExpired voId notes s = (Inl VehicleOfferNotActive, s)
       \<and> markOfferAsUsed now voId (Some (Suc usedOnVisitId)) notes s
           = (Http_error VehicleOfferNotActive, s)
       \<and> snd (markOfferAsUsed now voId requested notes s) = s
       \<and> markOfferAsExpired voId notes s = (Http_error VehicleOfferNotActive, s)"
  by (simp add: markAsUsed_not_active [OF assms] markAsExpired_not_active [OF assms]
      markOfferAsUsed_def markOfferAsExpired_def split: option.splits)

theorem mark_terminal_offer_fails_witness:
  "distinct (map vo_id (vehicle_offers ex_db_offers))
   \<and> VehicleOffer_findById 2 ex_db_offers =
       Some \<lparr>vo_id = 2, vo_vehicle_id = 1, vo_offer_id = 2, earned_on_visit_id = Some 3,
              issued_date = 4, used_date = Some 8, used_on_visit_id = Some 6, status = Used,
              vo_notes = Some ''redeemed''\<rparr>
   \<and> markAsUsed 20 2 41 None ex_db_offers = (Inl VehicleOfferNotActive, ex_db_offers)
   \<and> markAsExpired 2 None ex_db_offers = (Inl VehicleOfferNotActive, ex_db_offers)
   \<and> markOfferAsUsed 20 2 (Some 42) None ex_db_offers
       = (Http_error VehicleOfferNotActive, ex_db_offers)
   \<and> snd (markOfferAsUsed 20 2 None None ex_db_offers) = ex_db_offers
   \<and> markOfferAsExpired 2 None ex_db_offers = (Http_error VehicleOfferNotActive, ex_db_offers)"
  using mark_terminal_offer_fails [of ex_db_offers 2
      "\<lparr>vo_id = 2, vo_vehicle_id = 1, vo_offer_id = 2, earned_on_visit_id = Some 3,
        issued_date = 4, used_date = Some 8, used_on_visit_id = Some 6, status = Used,
        vo_notes = Some ''redeemed''\<rparr>" 20 41 None None]
  by (simp add: ex_db_offers_def VehicleOffer_findById_def sql_select_first_def)

lemma markAsUsed_active:
  assumes "VehicleOffer_findById voId s = Some offer" and "status offer = Active"
  shows "markAsUsed now voId visit notes s =
         (Inr (Some (offer\<lparr>status := Used, used_date := Some now,
                             used_on_visit_id := Some visit, vo_notes := notes\<rparr>)),
          s\<lparr>vehicle_offers :=
               map (\<lambda>r. if vo_id r = voId \<and> status r = Active
                        then r\<lparr>status := Used, used_date := Some now,
                               used_on_visit_id := Some visit, vo_notes := notes\<rparr>
                        else r) (vehicle_offers s)\<rparr>)"
proof -
  from assms have f: "find (\<lambda>r. vo_id r = voId) (vehicle_offers s) = Some offer"
    by (simp add: VehicleOffer_findById_def sql_select_first_def)
  from find_in_filter [OF f, of "\<lambda>r. status r = Active"] assms(2)
  have "filter (\<lambda>r. vo_id r = voId \<and> status r = Active) (vehicle_offers s) \<noteq> []" by simp
  moreover have "find (\<lambda>r. vo_id r = voId)
          (map (\<lambda>r. if vo_id r = voId \<and> status r = Active
                    then r\<lparr>status := Used, used_date := Some now,
                           used_on_visit_id := Some visit, vo_notes := notes\<rparr>
                    else r) (vehicle_offers s))
        = Some (offer\<lparr>status := Used, used_date := Some now,
                        used_on_visit_id := Some visit, vo_notes := notes\<rparr>)"
    using assms(2) by (intro find_update_first [OF f]) simp_all
  ultimately show ?thesis
    by (simp add: markAsUsed_def sql_update_def VehicleOffer_findById_def sql_select_first_def)
qed

lemma resetVisitCount_row:
  assumes "findByVehicleId vehicleId s = Some old"
  shows "\<exists>s'. resetVisitCount vehicleId s = (Inr (Some (old\<lparr>current_visit_count := 0\<rparr>)), s')
            \<and> findByVehicleId vehicleId s' = Some (old\<lparr>current_visit_count := 0\<rparr>)
            \<and> vehicle_offers s' = vehicle_offers s"
proof -
  from assms have "filter (\<lambda>r. vs_vehicle_id r = vehicleId) (vehicle_stats s) \<noteq> []"
    using no_stats_row [of vehicleId s] by simp
  then show ?thesis using assms
    by (simp add: resetVisitCount_def sql_update_def findByVehicleId_def sql_select_first_def
        find_update_same [where key = vs_vehicle_id])
qed

lemma incrementOffersUsed_counts:
  assumes "findByVehicleId v s = None \<longrightarrow> v \<in> set (vehicles s)"
  shows "\<exists>st s2. incrementOffersUsed now v s = (Inr (Some st), s2)
          \<and> findByVehicleId v s2 = Some st
          \<and> total_offers_used st =
              (case findByVehicleId v s of None \<Rightarrow> 0 | Some old \<Rightarrow> total_offers_used old) + 1
          \<and> vehicle_offers s2 = vehicle_offers s"
proof (cases "findByVehicleId v s")
  case None
  with assms have v: "v \<in> set (vehicles s)" by simp
  show ?thesis
    by (simp add: None incrementOffersUsed_first [OF None v] first_visit_row [OF None])
next
  case (Some old)
  then show ?thesis
    by (simp add: incrementOffersUsed_row [OF Some] findByVehicleId_def sql_select_first_def
        find_update_same [where key = vs_vehicle_id])
qed

lemma used_then_reset:
  assumes "findByVehicleId v s = None \<longrightarrow> v \<in> set (vehicles s)"
  shows "\<exists>counted s2 st. incrementOffersUsed now v s = (Inr counted, s2)
          \<and> findByVehicleId v (snd (resetVisitCount v s2)) = Some st
          \<and> current_visit_count st = 0
          \<and> total_offers_used st =
              (case findByVehicleId v s of None \<Rightarrow> 0 | Some old \<Rightarrow> total_offers_used old) + 1
          \<and> vehicle_offers (snd (resetVisitCount v s2)) = vehicle_offers s"
proof -
  from incrementOffersUsed_counts [OF assms, of now]
  obtain st s2 where u: "incrementOffersUsed now v s = (Inr (Some st), s2)"
    and st: "findByVehicleId v s2 = Some st"
      "total_offers_used st =
         (case findByVehicleId v s of None \<Rightarrow> 0 | Some old \<Rightarrow> total_offers_used old) + 1"
      "vehicle_offers s2 = vehicle_offers s"
    by blast
  from resetVisitCount_row [OF st(1)]
  obtain s3 where r: "resetVisitCount v s2 = (Inr (Some (st\<lparr>current_visit_count := 0\<rparr>)), s3)"
    "findByVehicleId v s3 = Some (st\<lparr>current_visit_count := 0\<rparr>)"
    "vehicle_offers s3 = vehicle_offers s2"
    by blast
  with u st show ?thesis by simp
qed

text \<open>C3: let the vehicle offer \<open>voId\<close> be active, the visit id of the request be given
  (not zero), and the vehicle have a statistics row or at least a row in \<^verbatim>\<open>vehicles\<close>.
  Then \<^verbatim>\<open>markOfferAsUsed\<close> succeeds; afterwards the stored offer is used, with
  \<open>used_date\<close> the current time and \<open>used_on_visit_id\<close> the visit; the vehicle's
  \<open>current_visit_count\<close> is zero and its \<open>total_offers_used\<close> is one more than before
  (counting a missing row as zero).\<close>

theorem markOfferAsUsed_redeems:
  assumes "VehicleOffer_findById voId s = Some offer" and "status offer = Active"
    and "visit \<noteq> 0"
    and "findByVehicleId (vo_vehicle_id offer) s = None \<longrightarrow> vo_vehicle_id offer \<in> set (vehicles s)"
  shows "\<exists>s' st.
           markOfferAsUsed now voId (Some visit) notes s =
             (Http_ok 200 (Some (offer\<lparr>status := Used, used_date := Some now,
                                        used_on_visit_id := Some visit, vo_notes := notes\<rparr>)), s')
         \<and> VehicleOffer_findById voId s' =
             Some (offer\<lparr>status := Used, used_date := Some now,
                          used_on_visit_id := Some visit, vo_notes := notes\<rparr>)
         \<and> findByVehicleId (vo_vehicle_id offer) s' = Some st
         \<and> current_visit_count st = 0
         \<and> total_offers_used st =
             (case findByVehicleId (vo_vehicle_id offer) s of
                None \<Rightarrow> 0 | Some old \<Rightarrow> total_offers_used old) + 1"
proof -
  let ?used = "offer\<lparr>status := Used, used_date := Some now,
                      used_on_visit_id := Some visit, vo_notes := notes\<rparr>"
  let ?s1 = "s\<lparr>vehicle_offers :=
               map (\<lambda>r. if vo_id r = voId \<and> status r = Active
                        then r\<lparr>status := Used, used_date := Some now,
                               used_on_visit_id := Some visit, vo_notes := notes\<rparr>
                        else r) (vehicle_offers s)\<rparr>"
  have m: "markAsUsed now voId visit notes s = (Inr (Some ?used), ?s1)"
    by (rule markAsUsed_active [OF assms(1,2)])
  have found: "VehicleOffer_findById voId ?s1 = Some ?used"
    using m assms(1,2)
    by (simp add: markAsUsed_def sql_update_def Let_def split: if_splits)
  have stats: "findByVehicleId (vo_vehicle_id offer) ?s1 = findByVehicleId (vo_vehicle_id offer) s"
    by (simp add: findByVehicleId_def)
  have "findByVehicleId (vo_vehicle_id offer) ?s1 = None \<longrightarrow> vo_vehicle_id offer \<in> set (vehicles ?s1)"
    using assms(4) stats by simp
  from used_then_reset [OF this, of now]
  obtain counted s2 st where u: "incrementOffersUsed now (vo_vehicle_id offer) ?s1 = (Inr counted, s2)"
    and st: "findByVehicleId (vo_vehicle_id offer) (snd (resetVisitCount (vo_vehicle_id offer) s2)) = Some st"
      "current_visit_count st = 0"
      "total_offers_used st =
         (case findByVehicleId (vo_vehicle_id offer) ?s1 of None \<Rightarrow> 0 | Some old \<Rightarrow> total_offers_used old) + 1"
    and vo: "vehicle_offers (snd (resetVisitCount (vo_vehicle_id offer) s2)) = vehicle_offers ?s1"
    by blast
  have "VehicleOffer_findById voId (snd (resetVisitCount (vo_vehicle_id offer) s2)) = Some ?used"
    using found vo by (simp add: VehicleOffer_findById_def)
  with m u st stats assms(3) show ?thesis
    by (simp add: markOfferAsUsed_def)
qed

theorem markOfferAsUsed_redeems_witness:
  "VehicleOffer_findById 1 ex_db_offers =
       Some \<lparr>vo_id = 1, vo_vehicle_id = 1, vo_offer_id = 1, earned_on_visit_id = Some 7,
              issued_date = 10, used_date = None, used_on_visit_id = None, status = Active,
              vo_notes = None\<rparr>
   \<and> (42::nat) \<noteq> 0
   \<and> findByVehicleId 1 ex_db_offers \<noteq> None
   \<and> markOfferAsUsed 20 1 (Some 42) (Some ''free wash'') ex_db_offers =
       (Http_ok 200
          (Some \<lparr>vo_id = 1, vo_vehicle_id = 1, vo_offer_id = 1, earned_on_visit_id = Some 7,
                  issued_date = 10, used_date = Some 20, used_on_visit_id = Some 42,
                  status = Used, vo_notes = Some ''free wash''\<rparr>),
        ex_db_offers\<lparr>
          vehicle_stats :=
            [\<lparr>vs_vehicle_id = 1, total_visits = 5, current_visit_count = 0,
              total_offers_earned = 2, total_offers_used = 2, last_visit_date = Some 10\<rparr>],
          vehicle_offers :=
            [\<lparr>vo_id = 1, vo_vehicle_id = 1, vo_offer_id = 1, earned_on_visit_id = Some 7,
              issued_date = 10, used_date = Some 20, used_on_visit_id = Some 42,
              status = Used, vo_notes = Some ''free wash''\<rparr>,
             \<lparr>vo_id = 2, vo_vehicle_id = 1, vo_offer_id = 2, earned_on_visit_id = Some 3,
              issued_date = 4, used_date = Some 8, used_on_visit_id = Some 6, status = Used,
              vo_notes = Some ''redeemed''\<rparr>]\<rparr>)"
  using markOfferAsUsed_redeems [of 1 ex_db_offers
      "\<lparr>vo_id = 1, vo_vehicle_id = 1, vo_offer_id = 1, earned_on_visit_id = Some 7,
        issued_date = 10, used_date = None, used_on_visit_id = None, status = Active,
        vo_notes = None\<rparr>" 42 20 "Some ''free wash''"]
  by (simp add: ex_db_offers_def VehicleOffer_findById_def sql_select_first_def findByVehicleId_def
      markOfferAsUsed_def markAsUsed_def sql_update_def incrementOffersUsed.simps
      update_offers_used_def resetVisitCount_def)

subsection \<open>The expiry sweep\<close>

lemma list_all2_update:
  "list_all2 P rows (map g rows) \<longleftrightarrow> list_all (\<lambda>r. P r (g r)) rows"
  by (induction rows) auto

lemma expireOffers_result:
  "expireOffers date_text today s =
     (length (filter (validity_ended today s) (vehicle_offers s)),
      s\<lparr>vehicle_offers :=
           map (\<lambda>vo. if validity_ended today s vo
                     then vo\<lparr>status := Expired,
                            vo_notes := auto_expired_notes date_text (linked_valid_until s vo)\<rparr>
                     else vo) (vehicle_offers s)\<rparr>)"
  by (simp add: expireOffers_def sql_update_def)

lemma expireOffers_leaves_none:
  "filter (validity_ended today (snd (expireOffers date_text today s)))
          (vehicle_offers (snd (expireOffers date_text today s))) = []"
  by (auto simp: expireOffers_result filter_empty_conv validity_ended_def linked_valid_until_def)

lemma expireOffers_nothing_stale:
  assumes "filter (validity_ended today s) (vehicle_offers s) = []"
  shows "expireOffers date_text today s = (0, s)"
  by (simp add: expireOffers_def sql_update_no_match [OF assms])

lemma expireOffers_again:
  "expireOffers date_text today (snd (expireOffers date_text today s))
     = (0, snd (expireOffers date_text today s))"
  by (rule expireOffers_nothing_stale [OF expireOffers_leaves_none])

lemma expired_after_sweep:
  "length (filter (\<lambda>vo. status vo = Expired)
             (map (\<lambda>vo. if validity_ended today s vo
                       then vo\<lparr>status := Expired, vo_notes := nt vo\<rparr> else vo) rows))
   = length (filter (validity_ended today s) rows)
     + length (filter (\<lambda>vo. status vo = Expired) rows)"
  by (induction rows) (auto simp: validity_ended_def)

text \<open>C6: \<^verbatim>\<open>expireOffers\<close> changes exactly the active vehicle offers whose offer has a
  \<open>valid_until\<close> before today: each becomes expired and its notes become
  'Auto-expired: Offer validity ended on ' followed by that date; every other row, and
  every other table, is as before, and the number returned is the number of rows that
  became expired. Run again on the database it leaves, with the same date, it matches no
  row, returns zero and leaves that database as it is.\<close>

theorem expireOffers_sweeps_once:
  "(case expireOffers date_text today s of
      (affectedRows, s') \<Rightarrow>
        list_all2
          (\<lambda>vo vo'. case sql_select_first (\<lambda>offer. o_id offer = vo_offer_id vo) (offers s) of
                       None \<Rightarrow> vo' = vo
                     | Some offer \<Rightarrow>
                         (case o_valid_until offer of
                            None \<Rightarrow> vo' = vo
                          | Some d \<Rightarrow>
                              if status vo = Active \<and> d < today
                              then vo' = vo\<lparr>status := Expired,
                                            vo_notes := Some (''Auto-expired: Offer validity ended on ''
                                                              @ date_text d)\<rparr>
                              else vo' = vo))
          (vehicle_offers s) (vehicle_offers s')
        \<and> affectedRows = length (filter (\<lambda>vo'. status vo' = Expired) (vehicle_offers s'))
                         - length (filter (\<lambda>vo. status vo = Expired) (vehicle_offers s))
        \<and> vehicle_stats s' = vehicle_stats s \<and> offers s' = offers s \<and> vehicles s' = vehicles s
        \<and> expireOffers date_text today s' = (0, s'))"
proof -
  obtain n s' where e: "expireOffers date_text today s = (n, s')"
    by (cases "expireOffers date_text today s")
  have rows: "list_all2
          (\<lambda>vo vo'. case sql_select_first (\<lambda>offer. o_id offer = vo_offer_id vo) (offers s) of
                       None \<Rightarrow> vo' = vo
                     | Some offer \<Rightarrow>
                         (case o_valid_until offer of
                            None \<Rightarrow> vo' = vo
                          | Some d \<Rightarrow>
                              if status vo = Active \<and> d < today
                              then vo' = vo\<lparr>status := Expired,
                                            vo_notes := Some (''Auto-expired: Offer validity ended on ''
                                                              @ date_text d)\<rparr>
                              else vo' = vo))
          (vehicle_offers s) (vehicle_offers s')"
    using e
    by (auto simp: expireOffers_result list_all2_update list_all_iff validity_ended_def
        linked_valid_until_def auto_expired_notes_def split: option.splits)
  from e have n1: "n = length (filter (validity_ended today s) (vehicle_offers s))"
    and rows': "vehicle_offers s' =
           map (\<lambda>vo. if validity_ended today s vo
                     then vo\<lparr>status := Expired,
                            vo_notes := auto_expired_notes date_text (linked_valid_until s vo)\<rparr>
                     else vo) (vehicle_offers s)"
    by (auto simp: expireOffers_result)
  have n: "n = length (filter (\<lambda>vo'. status vo' = Expired) (vehicle_offers s'))
                         - length (filter (\<lambda>vo. status vo = Expired) (vehicle_offers s))"
    unfolding rows' n1 expired_after_sweep by simp
  have frame: "vehicle_stats s' = vehicle_stats s \<and> offers s' = offers s \<and> vehicles s' = vehicles s"
    using e by (auto simp: expireOffers_result)
  have "expireOffers date_text today s' = (0, s')"
    using expireOffers_again [of date_text today s] e by simp
  with rows n frame e show ?thesis by simp
qed

theorem expireOffers_sweeps_once_witness:
  "expireOffers ex_date_text 20 ex_db_offers =
     (1, ex_db_offers\<lparr>vehicle_offers :=
          [\<lparr>vo_id = 1, vo_vehicle_id = 1, vo_offer_id = 1, earned_on_visit_id = Some 7,
            issued_date = 10, used_date = None, used_on_visit_id = None, status = Expired,
            vo_notes = Some ''Auto-expired: Offer validity ended on 1970-01-16''\<rparr>,
           \<lparr>vo_id = 2, vo_vehicle_id = 1, vo_offer_id = 2, earned_on_visit_id = Some 3,
            issued_date = 4, used_date = Some 8, used_on_visit_id = Some 6, status = Used,
            vo_notes = Some ''redeemed''\<rparr>]\<rparr>)
   \<and> expireOffers ex_date_text 20 (snd (expireOffers ex_date_text 20 ex_db_offers))
       = (0, snd (expireOffers ex_date_text 20 ex_db_offers))"
  using expireOffers_sweeps_once [where date_text = ex_date_text and today = 20 and s = ex_db_offers]
  by (simp add: ex_db_offers_def ex_date_text_def expireOffers_def sql_update_def
      validity_ended_def linked_valid_until_def sql_select_first_def auto_expired_notes_def)

subsection \<open>The key of the vehicle offers\<close>

text \<open>The statements of the model keep \<^verbatim>\<open>id\<close> a key: an insert takes the next value
  of the counter, and an update changes no id.\<close>

lemma keyed_update:
  assumes "vehicle_offers_keyed s" and "\<And>r. vo_id (g r) = vo_id r"
  shows "vehicle_offers_keyed (s\<lparr>vehicle_offers := map g (vehicle_offers s)\<rparr>)"
proof -
  have "vo_id \<circ> g = vo_id"
    using assms(2) by (simp add: fun_eq_iff)
  with assms show ?thesis
    by (simp add: vehicle_offers_keyed_def list_all_iff)
qed

lemma keyed_preserved:
  assumes "vehicle_offers_keyed s"
  shows "vehicle_offers_keyed (snd (VehicleOffer_create now offerData s))"
    and "vehicle_offers_keyed (snd (markAsUsed now voId visit remark s))"
    and "vehicle_offers_keyed (snd (markAsExpired voId remark s))"
    and "vehicle_offers_keyed (snd (VehicleOffer_update voId updateData s))"
    and "vehicle_offers_keyed (snd (expireOffers date_text today s))"
proof -
  show "vehicle_offers_keyed (snd (VehicleOffer_create now offerData s))"
    using assms
    by (auto simp: VehicleOffer_create_def Let_def vehicle_offers_keyed_def list_all_iff
        split: option.splits)
  show "vehicle_offers_keyed (snd (markAsUsed now voId visit remark s))"
    using keyed_update [OF assms, of "\<lambda>r. if vo_id r = voId \<and> status r = Active
              then r\<lparr>status := Used, used_date := Some now,
                     used_on_visit_id := Some visit, vo_notes := remark\<rparr> else r"]
    by (simp add: markAsUsed_def sql_update_def Let_def)
  show "vehicle_offers_keyed (snd (markAsExpired voId remark s))"
    using keyed_update [OF assms, of "\<lambda>r. if vo_id r = voId \<and> status r = Active
              then r\<lparr>status := Expired, vo_notes := remark\<rparr> else r"]
    by (simp add: markAsExpired_def sql_update_def Let_def)
  show "vehicle_offers_keyed (snd (VehicleOffer_update voId updateData s))"
    using keyed_update [OF assms, of "\<lambda>r. if vo_id r = voId
       then r\<lparr>vo_vehicle_id := set_if_defined (p_vehicle_id updateData) (vo_vehicle_id r),
                     vo_offer_id := set_if_defined (p_offer_id updateData) (vo_offer_id r),
                     earned_on_visit_id :=
                       set_if_defined (p_earned_on_visit_id updateData) (earned_on_visit_id r),
                     issued_date := set_if_defined (p_issued_date updateData) (issued_date r),
                     used_date := set_if_defined (p_used_date updateData) (used_date r),
                     used_on_visit_id :=
                       set_if_defined (p_used_on_visit_id updateData) (used_on_visit_id r),
                     status := set_if_defined (p_status updateData) (status r),
                     vo_notes := set_if_defined (p_notes updateData) (vo_notes r)\<rparr> else r"]
    by (simp add: VehicleOffer_update_def sql_update_def Let_def)
  show "vehicle_offers_keyed (snd (expireOffers date_text today s))"
    using keyed_update [OF assms, of "\<lambda>vo. if validity_ended today s vo
                     then vo\<lparr>status := Expired,
                            vo_notes := auto_expired_notes date_text (linked_valid_until s vo)\<rparr>
                     else vo"]
    by (simp add: expireOffers_result)
qed

subsection \<open>Status transitions\<close>


lemma incrementOffersEarned_frame:
  "vehicle_offers (snd (incrementOffersEarned now v s)) = vehicle_offers s"
proof (cases "findByVehicleId v s")
  case (Some old)
  then show ?thesis by (simp add: incrementOffersEarned_row [OF Some])
next
  case None
  show ?thesis
  proof (cases "v \<in> set (vehicles s)")
    case True
    then show ?thesis by (simp add: incrementOffersEarned_first [OF None True])
  next
    case False
    then show ?thesis
      by (simp add: incrementOffersEarned_no_row [OF None] recordVisit_not_found)
  qed
qed










lemma createVehicleOffer_rows:
  "vehicle_offers (snd (createVehicleOffer now body s)) = vehicle_offers s
   \<or> (\<exists>new. vehicle_offers (snd (createVehicleOffer now body s)) = vehicle_offers s @ [new]
            \<and> (status new = Active \<longrightarrow>
                 \<not> hasActiveOffer (vo_vehicle_id new) (vo_offer_id new) s))"
proof (cases "\<exists>v ofr. d_vehicle_id body = Some v \<and> d_offer_id body = Some ofr \<and> v \<noteq> 0 \<and> ofr \<noteq> 0")
  case False
  then have "snd (createVehicleOffer now body s) = s"
    by (auto simp: createVehicleOffer_def split: option.splits)
  then show ?thesis by simp
next
  case True
  then obtain v ofr where b: "d_vehicle_id body = Some v" "d_offer_id body = Some ofr" "v \<noteq> 0" "ofr \<noteq> 0"
    by blast
  let ?st = "case d_status body of None \<Rightarrow> Active | Some st \<Rightarrow> st"
  show ?thesis
  proof (cases "hasActiveOffer v ofr s \<and> ?st = Active")
    case True
    with b have "snd (createVehicleOffer now body s) = s"
      by (simp add: createVehicleOffer_def Let_def)
    then show ?thesis by simp
  next
    case False
    obtain res s1 where c: "VehicleOffer_create now (body\<lparr>d_status := Some ?st\<rparr>) s = (res, s1)"
      by (cases "VehicleOffer_create now (body\<lparr>d_status := Some ?st\<rparr>) s")
    from b c have rows: "vehicle_offers s1 = vehicle_offers s @
        [\<lparr>vo_id = vehicle_offers_next_id s, vo_vehicle_id = v, vo_offer_id = ofr,
          earned_on_visit_id = id_or_null (d_earned_on_visit_id body),
          issued_date = id_or (d_issued_date body) now,
          used_date = id_or_null (d_used_date body),
          used_on_visit_id = id_or_null (d_used_on_visit_id body),
          status = ?st, vo_notes = text_or_null (d_notes body)\<rparr>]"
      and res: "\<exists>row. res = Inr row"
      by (auto simp: VehicleOffer_create_def Let_def)
    from res obtain row where r: "res = Inr row" by blast
    have "vehicle_offers (snd (createVehicleOffer now body s)) = vehicle_offers s1"
      using b c r False
      by (auto simp: createVehicleOffer_def Let_def incrementOffersEarned_frame)
    with rows False show ?thesis by auto
  qed
qed




subsection \<open>One active offer for a vehicle and an offer\<close>

text \<open>Creation keeps the active rows of different pairs: it refuses an active row for a
  pair that has one. The update fetches the row by the id of the request and then refuses
  only if the id of that row differs from the id of the request, which never holds.\<close>

lemma createVehicleOffer_keeps_active_pairs:
  assumes "active_pairs_distinct s"
  shows "active_pairs_distinct (snd (createVehicleOffer now body s))"
proof -
  from createVehicleOffer_rows [of now body s]
  consider "vehicle_offers (snd (createVehicleOffer now body s)) = vehicle_offers s"
    | new where "vehicle_offers (snd (createVehicleOffer now body s)) = vehicle_offers s @ [new]"
        "status new = Active \<longrightarrow> \<not> hasActiveOffer (vo_vehicle_id new) (vo_offer_id new) s"
    by blast
  then show ?thesis
  proof cases
    case 1
    with assms show ?thesis by (simp add: active_pairs_distinct_def)
  next
    case 2
    with assms show ?thesis
      by (auto simp: active_pairs_distinct_def hasActiveOffer_def filter_empty_conv)
  qed
qed

lemma updateVehicleOffer_never_rejects_duplicate:
  "fst (updateVehicleOffer voId body s)
     \<noteq> Http_reject 400 ''Vehicle already has an active offer of this type''"
proof (cases "VehicleOffer_findById voId s")
  case None
  then show ?thesis by (simp add: updateVehicleOffer_def)
next
  case (Some existingOffer)
  then have "vo_id existingOffer = voId"
    by (auto simp: VehicleOffer_findById_def sql_select_first_def find_Some_iff)
  with Some show ?thesis
    by (simp add: updateVehicleOffer_def split: prod.splits sum.splits)
qed

text \<open>C1: at most one active row for every pair of a vehicle and an offer, with the
  creation and the update both refusing a duplicate after asking \<^verbatim>\<open>hasActiveOffer\<close>.
  The update does not do so. In the example database vehicle 1 holds an active row for
  offer 1; \<^verbatim>\<open>updateVehicleOffer\<close>, asked to turn the used row 2 into an active row of
  offer 1, does call \<^verbatim>\<open>hasActiveOffer\<close>, which answers true, and yet writes: afterwards
  vehicle 1 has two active rows for offer 1.\<close>

theorem updateVehicleOffer_duplicates_active_offer:
  "active_pairs_distinct ex_db_offers
   \<and> hasActiveOffer 1 1 ex_db_offers
   \<and> fst (updateVehicleOffer 2
       \<lparr>p_vehicle_id = None, p_offer_id = Some 1, p_earned_on_visit_id = None,
        p_issued_date = None, p_used_date = None, p_used_on_visit_id = None,
        p_status = Some Active, p_notes = None\<rparr> ex_db_offers) =
     Http_ok 200
        (Some \<lparr>vo_id = 2, vo_vehicle_id = 1, vo_offer_id = 1, earned_on_visit_id = Some 3,
                issued_date = 4, used_date = Some 8, used_on_visit_id = Some 6, status = Active,
                vo_notes = Some ''redeemed''\<rparr>)
   \<and> length (filter (\<lambda>r. vo_vehicle_id r = 1 \<and> vo_offer_id r = 1 \<and> status r = Active)
        (vehicle_offers (snd (updateVehicleOffer 2
           \<lparr>p_vehicle_id = None, p_offer_id = Some 1, p_earned_on_visit_id = None,
            p_issued_date = None, p_used_date = None, p_used_on_visit_id = None,
            p_status = Some Active, p_notes = None\<rparr> ex_db_offers)))) = 2
   \<and> \<not> active_pairs_distinct (snd (updateVehicleOffer 2
           \<lparr>p_vehicle_id = None, p_offer_id = Some 1, p_earned_on_visit_id = None,
            p_issued_date = None, p_used_date = None, p_used_on_visit_id = None,
            p_status = Some Active, p_notes = None\<rparr> ex_db_offers))"
  by (simp add: ex_db_offers_def updateVehicleOffer_def VehicleOffer_update_def
      VehicleOffer_findById_def sql_select_first_def sql_update_def set_if_defined_def
      truthy_id_def no_fields_to_update_def hasActiveOffer_def active_pairs_distinct_def id_or_def)

subsection \<open>The discount value of an offer\<close>

text \<open>The checks of \<^verbatim>\<open>Offer.create\<close> come before its first \<^verbatim>\<open>db.execute\<close>, so they
  work: a percentage or fixed amount with a discount value that is missing, zero or negative
  is refused with a validation error. The values bound to the \<^verbatim>\<open>INSERT\<close> of a free wash
  carry discount value zero. But no \<^verbatim>\<open>INSERT\<close> is ever run: the model never changes
  the database and never returns a row, and the controller, which asks
  \<^verbatim>\<open>Offer.findByName\<close> first, answers every request that names an offer, a threshold and
  a type with the TypeError.\<close>

lemma Offer_create_rejects_discount:
  assumes "od_discount_type offerData = Some ''percentage''
           \<or> od_discount_type offerData = Some ''fixed_amount''"
    and "od_discount_value offerData = Undefined \<or> od_discount_value offerData = Null
         \<or> od_discount_value offerData = NaN
         \<or> (\<exists>r. od_discount_value offerData = Num r \<and> r \<le> 0)"
  shows "Offer_create offerData s = (Inl DiscountValueRequired, s)
         \<or> Offer_create offerData s = (Inl OfferFieldsRequired, s)"
  using assms
  by (auto simp: Offer_create_def Let_def validDiscountTypes_def falsy_number_def
      number_le_zero_def split: option.splits)

lemma Offer_values_free_wash:
  "o_discount_value (Offer_values name visit_threshold ''free_wash'' offerData insertId) = Some 0"
  by (simp add: Offer_values_def)

lemma Offer_create_persists_nothing:
  "snd (Offer_create offerData s) = s \<and> fst (Offer_create offerData s) \<noteq> Inr created"
  by (simp add: Offer_create_def Offer_db_execute_def Let_def split: option.splits)

lemma createOffer_persists_nothing:
  "snd (createOffer body s) = s \<and> fst (createOffer body s) \<noteq> Http_ok 201 offer"
  by (simp add: createOffer_def Offer_findByName_def Offer_db_execute_def split: option.splits)

lemma createOffer_type_error:
  assumes "od_name body = Some name" and "name \<noteq> []"
    and "od_visit_threshold body = Some visit_threshold" and "visit_threshold \<noteq> 0"
    and "od_discount_type body = Some discount_type" and "discount_type \<noteq> []"
  shows "createOffer body s = (Http_error DbUndefined, s)"
  using assms by (simp add: createOffer_def Offer_findByName_def Offer_db_execute_def)

text \<open>C9: an offer of type 'percentage' or 'fixed_amount' with a discount value that is
  missing, zero or negative is refused with a validation error and nothing is persisted; an
  offer of type 'free_wash' is persisted with discount value zero. The code misses the
  second half, and through the controller the first: the free wash of the example passes
  every check of \<^verbatim>\<open>Offer.create\<close>, which then throws the TypeError and stores no row,
  and \<^verbatim>\<open>createOffer\<close> answers both the free wash and the percentage offer with
  discount value zero with that TypeError, not with a created offer and not with the
  validation error. Only \<^verbatim>\<open>Offer.create\<close> called directly refuses the percentage offer
  as the claim says.\<close>

theorem Offer_create_free_wash_not_persisted:
  "Offer_create ex_free_wash ex_db_offers = (Inl DbUndefined, ex_db_offers)
   \<and> createOffer ex_free_wash ex_db_offers = (Http_error DbUndefined, ex_db_offers)
   \<and> createOffer ex_percentage_zero ex_db_offers = (Http_error DbUndefined, ex_db_offers)
   \<and> Offer_create ex_percentage_zero ex_db_offers = (Inl DiscountValueRequired, ex_db_offers)"
  by (simp add: ex_percentage_zero_def ex_free_wash_def createOffer_def Offer_create_def
      Offer_findByName_def Offer_db_execute_def validDiscountTypes_def falsy_number_def
      number_le_zero_def number_gt_zero_def parseFloat_def Let_def)

end
